theory Spec2Isabelle
  imports
    Main
    "HOL-Library.Sublist"
    "HOL-Library.Char_ord"
    "HOL-Library.List_Lexorder"
    "HOL-Library.AList"
begin

section \<open>The bookmark model (package bookmark)\<close>

text \<open>
  Go strings are byte sequences and \<open>len\<close> counts bytes, as \<^typ>\<open>string\<close> and
  \<^const>\<open>length\<close> do here. \<open>time.Time\<close> is opaque to everything below and is
  kept as an integer. Go's \<open>int\<close> is 64 bits wide; every \<open>int\<close> below is a length or
  a count of slice elements, which cannot reach \<open>2^63\<close>, so \<^typ>\<open>int\<close> is used
  without wrap-around.
\<close>

record Bookmark =
  Title :: string
  URL :: string
  FolderPath :: "string list"
  DateAdded :: int
  Source :: string
  Profile :: string
  Tags :: "string list"

record SourceInfo =
  si_Name :: string
  si_Profile :: string
  si_Path :: string
  si_Count :: int

record Collection =
  Bookmarks :: "Bookmark list"
  Sources :: "SourceInfo list"

definition NewCollection :: Collection where
  "NewCollection = \<lparr>Bookmarks = [], Sources = []\<rparr>"

text \<open>\<open>Collection.Add\<close>: the receiver is mutated in the source and returned here.\<close>

definition Add :: "Collection \<Rightarrow> Bookmark list \<Rightarrow> SourceInfo \<Rightarrow> Collection" where
  "Add c bookmarks source =
     c\<lparr>Bookmarks := Bookmarks c @ bookmarks,
       Sources := Sources c @ [source\<lparr>si_Count := int (length bookmarks)\<rparr>]\<rparr>"

definition Count :: "Collection \<Rightarrow> int" where
  "Count c = int (length (Bookmarks c))"

section \<open>String helpers of the Go standard library\<close>

text \<open>\<open>strings.Join\<close>.\<close>

fun Join :: "string list \<Rightarrow> string \<Rightarrow> string" where
  "Join [] sep = []"
| "Join [x] sep = x"
| "Join (x # y # ys) sep = x @ sep @ Join (y # ys) sep"

text \<open>\<open>strings.Index\<close>: the byte offset of the first occurrence, \<open>-1\<close> if there is none.\<close>

fun Index :: "string \<Rightarrow> string \<Rightarrow> int" where
  "Index [] substr = (if substr = [] then 0 else - 1)"
| "Index (c # s) substr =
     (if prefix substr (c # s) then 0
      else (let r = Index s substr in if r < 0 then - 1 else r + 1))"

text \<open>\<open>strings.Contains\<close>.\<close>

definition Contains :: "string \<Rightarrow> string \<Rightarrow> bool" where
  "Contains s substr = (0 \<le> Index s substr)"

text \<open>The decimal text that \<open>fmt.Sprintf\<close> writes for \<open>%d\<close>.\<close>

function digits :: "nat \<Rightarrow> string" where
  "digits n =
     (if n < 10 then [''0123456789'' ! n]
      else digits (n div 10) @ [''0123456789'' ! (n mod 10)])"
  by pat_completeness auto
termination
  by (relation "measure id") auto

declare digits.simps [simp del]

definition Itoa :: "int \<Rightarrow> string" where
  "Itoa i = (if i < 0 then ''-'' @ digits (nat (- i)) else digits (nat i))"

text \<open>
  What the filter engine takes from the standard library and this model leaves open:
  \<open>strings.ToLower\<close> (Unicode case mapping) and \<open>regexp.Compile\<close>, which fails with
  \<open>None\<close> or gives the compiled pattern as its \<open>MatchString\<close> predicate.
\<close>

record golib =
  ToLower :: "string \<Rightarrow> string"
  Compile :: "string \<Rightarrow> (string \<Rightarrow> bool) option"

section \<open>The filter engine\<close>

record FilterOptions =
  IncludeFolders :: "string list"
  ExcludeFolders :: "string list"
  ExcludeURLPatterns :: "string list"
  ExcludeProtocols :: "string list"
  WarnProtocols :: "string list"
  MaxURLLength :: int
  WarnURLLength :: int

record FilterResult =
  fr_Bookmarks :: "Bookmark list"
  Warnings :: "string list"
  Excluded :: int

definition extractProtocol :: "golib \<Rightarrow> string \<Rightarrow> string" where
  "extractProtocol G url =
     (let idx = Index url '':'' in
      if idx \<le> 0 then [] else ToLower G (take (nat idx) url))"

text \<open>\<open>truncate\<close>; \<open>maxLen\<close> is the constant 40 or 60 at every call, so it is a \<^typ>\<open>nat\<close>.\<close>

definition truncate :: "string \<Rightarrow> nat \<Rightarrow> string" where
  "truncate s maxLen =
     (if length s \<le> maxLen then s
      else if maxLen \<le> 3 then take maxLen s
      else take (maxLen - 3) s @ ''...'')"

text \<open>The first loop of \<open>Filter\<close>: patterns that do not compile are left out.\<close>

fun compile_patterns :: "golib \<Rightarrow> string list \<Rightarrow> (string \<Rightarrow> bool) list" where
  "compile_patterns G [] = []"
| "compile_patterns G (p # ps) =
     (case Compile G p of
        Some re \<Rightarrow> re # compile_patterns G ps
      | None \<Rightarrow> compile_patterns G ps)"

text \<open>
  The lookup tables \<open>excludeProtos\<close> and \<open>warnProtos\<close>: a Go \<open>map[string]bool\<close> read
  with the zero value \<open>false\<close> for an absent key.
\<close>

definition proto_table :: "golib \<Rightarrow> string list \<Rightarrow> string \<Rightarrow> bool" where
  "proto_table G ps = foldl (\<lambda>m p. m(ToLower G p := True)) (\<lambda>_. False) ps"

text \<open>
  The exclusion cascade of one loop iteration, in the order of the source. The source
  also sets a \<open>reason\<close> string, which it then discards.
\<close>

definition is_excluded ::
  "FilterOptions \<Rightarrow> (string \<Rightarrow> bool) list \<Rightarrow> (string \<Rightarrow> bool) \<Rightarrow> string \<Rightarrow> Bookmark \<Rightarrow> bool" where
  "is_excluded opts patterns excludeProtos proto b =
     (let folderStr = Join (FolderPath b) ''/'';
          excluded = excludeProtos proto;
          excluded = (if \<not> excluded \<and> 0 < MaxURLLength opts
                         \<and> MaxURLLength opts < int (length (URL b))
                      then True else excluded);
          excluded = (if \<not> excluded \<and> 0 < length (IncludeFolders opts)
                      then (if \<not> list_ex (Contains folderStr) (IncludeFolders opts)
                            then True else excluded)
                      else excluded);
          excluded = (if \<not> excluded
                      then list_ex (Contains folderStr) (ExcludeFolders opts)
                      else excluded);
          excluded = (if \<not> excluded
                      then list_ex (\<lambda>p. p (URL b)) patterns
                      else excluded)
      in excluded)"

definition protocol_warning :: "string \<Rightarrow> Bookmark \<Rightarrow> string" where
  "protocol_warning proto b =
     ''bookmark '' @ [CHR 0x27] @ truncate (Title b) 40 @ [CHR 0x27]
       @ '' uses protocol '' @ [CHR 0x27] @ proto @ [CHR 0x27] @ '': ''
       @ truncate (URL b) 60"

definition length_warning :: "Bookmark \<Rightarrow> string" where
  "length_warning b =
     ''bookmark '' @ [CHR 0x27] @ truncate (Title b) 40 @ [CHR 0x27]
       @ '' has long URL ('' @ Itoa (int (length (URL b))) @ '' chars): ''
       @ truncate (URL b) 60"

text \<open>The main loop of \<open>Filter\<close>, with \<open>result\<close> as the accumulator.\<close>

fun filter_loop ::
  "golib \<Rightarrow> FilterOptions \<Rightarrow> (string \<Rightarrow> bool) list \<Rightarrow> (string \<Rightarrow> bool) \<Rightarrow> (string \<Rightarrow> bool)
     \<Rightarrow> Bookmark list \<Rightarrow> FilterResult \<Rightarrow> FilterResult" where
  "filter_loop G opts patterns excludeProtos warnProtos [] result = result"
| "filter_loop G opts patterns excludeProtos warnProtos (b # bs) result =
     (let proto = extractProtocol G (URL b) in
      if is_excluded opts patterns excludeProtos proto b
      then filter_loop G opts patterns excludeProtos warnProtos bs
             (result\<lparr>Excluded := Excluded result + 1\<rparr>)
      else
        (let result = (if warnProtos proto
                       then result\<lparr>Warnings := Warnings result @ [protocol_warning proto b]\<rparr>
                       else result);
             result = (if 0 < WarnURLLength opts \<and> WarnURLLength opts < int (length (URL b))
                       then result\<lparr>Warnings := Warnings result @ [length_warning b]\<rparr>
                       else result);
             result = result\<lparr>fr_Bookmarks := fr_Bookmarks result @ [b]\<rparr>
         in filter_loop G opts patterns excludeProtos warnProtos bs result))"

definition Filter :: "golib \<Rightarrow> Bookmark list \<Rightarrow> FilterOptions \<Rightarrow> FilterResult" where
  "Filter G bookmarks opts =
     (let patterns = compile_patterns G (ExcludeURLPatterns opts);
          excludeProtos = proto_table G (ExcludeProtocols opts);
          warnProtos = proto_table G (WarnProtocols opts)
      in filter_loop G opts patterns excludeProtos warnProtos bookmarks
           \<lparr>fr_Bookmarks = [], Warnings = [], Excluded = 0\<rparr>)"

section \<open>Deduplication\<close>

text \<open>The loop of \<open>Deduplicate\<close>; \<open>seen\<close> is a \<open>map[string]bool\<close> as above.\<close>

fun dedup_loop :: "Bookmark list \<Rightarrow> (string \<Rightarrow> bool) \<Rightarrow> Bookmark list \<Rightarrow> Bookmark list" where
  "dedup_loop [] seen result = result"
| "dedup_loop (b # bs) seen result =
     (if \<not> seen (URL b)
      then dedup_loop bs (seen(URL b := True)) (result @ [b])
      else dedup_loop bs seen result)"

definition Deduplicate :: "Bookmark list \<Rightarrow> Bookmark list" where
  "Deduplicate bookmarks = dedup_loop bookmarks (\<lambda>_. False) []"

text \<open>
  The specification's wording of deduplication, for comparison with the code: the record
  at position \<open>i\<close> stays exactly when no earlier position holds the same URL, and the
  records that stay keep their order.
\<close>

definition first_occurrences :: "Bookmark list \<Rightarrow> Bookmark list" where
  "first_occurrences R =
     map (\<lambda>i. R ! i)
       (filter (\<lambda>i. URL (R ! i) \<notin> set (map URL (take i R))) [0..<length R])"

section \<open>Adapters (packages input and output)\<close>

text \<open>\<open>input.Config\<close>; none of the callers below sets its \<open>Options\<close> map.\<close>

record input_Config =
  in_Enabled :: bool
  in_Profile :: string
  in_CustomPath :: string

text \<open>
  A value of the interface \<open>input.Adapter\<close> is a pointer to an object with state of
  its own. It is modelled by what can be observed of it (\<open>Name\<close>, \<open>DisplayName\<close>,
  \<open>Available\<close>, \<open>Path\<close>) and, for the two methods that may change it, by the value
  returned together with the object as it is afterwards: \<open>Configure\<close> returns an error
  (\<open>Some\<close>) or \<open>nil\<close>, \<open>Read\<close> an error (\<open>Inl\<close>) or the bookmarks. The context argument
  of \<open>Read\<close> is a value without content: cancellation is not modelled.
\<close>

type_synonym Context = unit

codatatype Adapter = Adapter
  (Name: string)
  (DisplayName: string)
  (Available: bool)
  (Path: string)
  (Configure: "input_Config \<Rightarrow> string option \<times> Adapter")
  (Read: "Context \<Rightarrow> (string + Bookmark list) \<times> Adapter")

record RenderOptions =
  IncludeMetadata :: bool
  IncludeDates :: bool
  IncludeTags :: bool
  IncludeProfile :: bool
  GroupBySource :: bool
  SortAlpha :: bool
  Style :: string

definition DefaultRenderOptions :: RenderOptions where
  "DefaultRenderOptions =
     \<lparr>IncludeMetadata = True, IncludeDates = True, IncludeTags = True,
      IncludeProfile = True, GroupBySource = True, SortAlpha = False, Style = []\<rparr>"

text \<open>
  \<open>output.Adapter\<close>: its name and its \<open>Render\<close> method, an error (\<open>Inl\<close>) or the rendered
  bytes. The renderers of this repository stamp their metadata header with
  \<open>time.Now()\<close>, so \<open>Render\<close> takes the clock reading as its first argument.
\<close>

record OutputAdapter =
  out_Name :: string
  Render :: "nat \<Rightarrow> Collection \<Rightarrow> RenderOptions \<Rightarrow> string + string"

section \<open>The registry (package adapter)\<close>

text \<open>
  The two package-level maps \<open>inputs\<close> and \<open>outputs\<close>, as association lists with one
  entry per key, together with one field that is not in the source: \<open>reads\<close> lists, in
  order, the registry keys of the adapters whose \<open>Read\<close> method has been called. The
  locks are left out: every function below runs sequentially.
\<close>

record world =
  inputs :: "(string \<times> Adapter) list"
  outputs :: "(string \<times> OutputAdapter) list"
  reads :: "string list"

definition RegisterInput :: "Adapter \<Rightarrow> world \<Rightarrow> world" where
  "RegisterInput adapter w = w\<lparr>inputs := AList.update (Name adapter) adapter (inputs w)\<rparr>"

definition RegisterOutput :: "OutputAdapter \<Rightarrow> world \<Rightarrow> world" where
  "RegisterOutput adapter w = w\<lparr>outputs := AList.update (out_Name adapter) adapter (outputs w)\<rparr>"

definition GetInput :: "world \<Rightarrow> string \<Rightarrow> Adapter option" where
  "GetInput w name = map_of (inputs w) name"

definition GetOutput :: "world \<Rightarrow> string \<Rightarrow> OutputAdapter option" where
  "GetOutput w name = map_of (outputs w) name"

text \<open>
  \<open>ListInputs\<close>: the keys in the map's iteration order, which Go leaves unspecified,
  then \<open>sort.Strings\<close>, which orders byte-wise.
\<close>

definition ListInputs :: "world \<Rightarrow> string list" where
  "ListInputs w = sort (map fst (inputs w))"

definition ListOutputs :: "world \<Rightarrow> string list" where
  "ListOutputs w = sort (map fst (outputs w))"

text \<open>The registry before any \<open>init\<close> function has run.\<close>

definition empty_world :: world where
  "empty_world = \<lparr>inputs = [], outputs = [], reads = []\<rparr>"

section \<open>Configuration (package config)\<close>

record InputConfig =
  Enabled :: bool
  ic_Profile :: string
  CustomPath :: string

record InputsConfig =
  Chrome :: InputConfig
  Edge :: InputConfig
  Firefox :: InputConfig
  Safari :: InputConfig
  Chromium :: InputConfig
  Brave :: InputConfig

text \<open>
  Of \<open>Config\<close>, the fields that the functions below read: \<open>Inputs\<close>,
  \<open>Pipeline.Filter\<close> (whose seven fields are those of \<open>FilterOptions\<close>) and
  \<open>Pipeline.Transform.Deduplicate\<close>.
\<close>

record Config =
  Inputs :: InputsConfig
  Pipeline_Filter :: FilterOptions
  Pipeline_Transform_Deduplicate :: bool

definition GetInputConfig :: "Config \<Rightarrow> string \<Rightarrow> InputConfig" where
  "GetInputConfig c name =
     (if name = ''chrome'' then Chrome (Inputs c)
      else if name = ''edge'' then Edge (Inputs c)
      else if name = ''firefox'' then Firefox (Inputs c)
      else if name = ''safari'' then Safari (Inputs c)
      else if name = ''chromium'' then Chromium (Inputs c)
      else if name = ''brave'' then Brave (Inputs c)
      else \<lparr>Enabled = False, ic_Profile = [], CustomPath = []\<rparr>)"

section \<open>The orchestrator (command sync)\<close>

definition inputPreference :: "string list" where
  "inputPreference = [''chrome'', ''firefox'', ''edge'', ''safari'', ''chromium'', ''brave'']"

text \<open>
  The registry holds the adapter by pointer, so what \<open>Configure\<close> and \<open>Read\<close> do to it is
  seen by every later lookup: the entry is replaced by the adapter as it is afterwards.
\<close>

definition store_input :: "string \<Rightarrow> Adapter \<Rightarrow> world \<Rightarrow> world" where
  "store_input name inp w = w\<lparr>inputs := AList.update name inp (inputs w)\<rparr>"

definition log_read :: "string \<Rightarrow> world \<Rightarrow> world" where
  "log_read name w = w\<lparr>reads := reads w @ [name]\<rparr>"

text \<open>
  One iteration of the loop of \<open>readAllInputs\<close>, which is also, statement for statement
  and apart from the calls of \<open>logVerbose\<close>, one iteration of the loop of
  \<open>Server.getBookmarks\<close>. Each \<open>continue\<close> of the source is a branch that returns the
  collection as it was.
\<close>

definition read_source :: "Config \<Rightarrow> string \<Rightarrow> world \<times> Collection \<Rightarrow> world \<times> Collection" where
  "read_source cfg name wc =
     (case wc of (w, collection) \<Rightarrow>
      (case GetInput w name of
         None \<Rightarrow> (w, collection)
       | Some inp \<Rightarrow>
           (let inputCfg = GetInputConfig cfg name in
            if \<not> Enabled inputCfg then (w, collection)
            else if \<not> Available inp then (w, collection)
            else
              (case Configure inp
                      \<lparr>in_Enabled = True, in_Profile = [], in_CustomPath = CustomPath inputCfg\<rparr> of
                 (Some err, inp1) \<Rightarrow> (store_input name inp1 w, collection)
               | (None, inp1) \<Rightarrow>
                   (case Read inp1 () of
                      (Inl err, inp2) \<Rightarrow> (log_read name (store_input name inp2 w), collection)
                    | (Inr bookmarks, inp2) \<Rightarrow>
                        (let w2 = log_read name (store_input name inp2 w) in
                         case bookmarks of
                           [] \<Rightarrow> (w2, collection)
                         | b0 # _ \<Rightarrow>
                             (w2, Add collection bookmarks
                                    \<lparr>si_Name = name, si_Profile = Profile b0,
                                     si_Path = Path inp2, si_Count = 0\<rparr>)))))))"

text \<open>\<open>readAllInputs\<close>; the error it returns is \<open>nil\<close> on every path.\<close>

definition readAllInputs :: "Config \<Rightarrow> world \<Rightarrow> Collection \<Rightarrow> string option \<times> world \<times> Collection" where
  "readAllInputs cfg w collection =
     (case fold (read_source cfg) inputPreference (w, collection) of
        (w', collection') \<Rightarrow> (None, w', collection'))"

text \<open>
  The search of \<open>readPreferredInput\<close> for the first registered, enabled and available
  adapter, with the key it is registered under.
\<close>

fun first_available :: "Config \<Rightarrow> world \<Rightarrow> string list \<Rightarrow> (string \<times> Adapter) option" where
  "first_available cfg w [] = None"
| "first_available cfg w (name # names) =
     (case GetInput w name of
        None \<Rightarrow> first_available cfg w names
      | Some inp \<Rightarrow>
          if \<not> Enabled (GetInputConfig cfg name) then first_available cfg w names
          else if Available inp then Some (name, inp)
          else first_available cfg w names)"

text \<open>\<open>readPreferredInput\<close>: an error message (\<open>Inl\<close>) or the world and collection afterwards.\<close>

definition readPreferredInput ::
  "Config \<Rightarrow> string \<Rightarrow> string \<Rightarrow> world \<Rightarrow> Collection \<Rightarrow> string + (world \<times> Collection)" where
  "readPreferredInput cfg browserFlag profileFlag w collection =
     (let found = (if browserFlag \<noteq> [] then
                     (case GetInput w browserFlag of
                        None \<Rightarrow> Inl (''unknown browser: '' @ browserFlag)
                      | Some inp \<Rightarrow> Inr (Some (browserFlag, inp)))
                   else Inr (first_available cfg w inputPreference))
      in case found of
           Inl e \<Rightarrow> Inl e
         | Inr None \<Rightarrow> Inl ''no available browser found''
         | Inr (Some (key, targetInput)) \<Rightarrow>
             (let inputCfg = GetInputConfig cfg (Name targetInput);
                  inputCfg = (if profileFlag \<noteq> [] then inputCfg\<lparr>ic_Profile := profileFlag\<rparr>
                              else if ic_Profile inputCfg = []
                                   then inputCfg\<lparr>ic_Profile := ''Default''\<rparr>
                                   else inputCfg)
              in case Configure targetInput
                        \<lparr>in_Enabled = True, in_Profile = ic_Profile inputCfg,
                         in_CustomPath = CustomPath inputCfg\<rparr> of
                   (Some err, inp1) \<Rightarrow> Inl (''configuring '' @ Name inp1 @ '': '' @ err)
                 | (None, inp1) \<Rightarrow>
                     (case Read inp1 () of
                        (Inl err, inp2) \<Rightarrow> Inl (''reading from '' @ Name inp2 @ '': '' @ err)
                      | (Inr bookmarks, inp2) \<Rightarrow>
                          Inr (log_read key (store_input key inp2 w),
                               Add collection bookmarks
                                 \<lparr>si_Name = Name inp2, si_Profile = ic_Profile inputCfg,
                                  si_Path = Path inp2, si_Count = 0\<rparr>))))"

text \<open>The command-line flags that \<open>runSync\<close> reads between collecting and rendering.\<close>

record SyncFlags =
  flag_all :: bool
  flag_browser :: string
  flag_profile :: string
  flag_exclude_protocols :: "string list"
  flag_warn_protocols :: "string list"
  flag_max_url_length :: int
  flag_warn_url_length :: int

definition buildFilterOptions :: "SyncFlags \<Rightarrow> Config \<Rightarrow> FilterOptions" where
  "buildFilterOptions flags cfg =
     (let filterOpts = Pipeline_Filter cfg;
          filterOpts = (if 0 < length (flag_exclude_protocols flags)
                        then filterOpts\<lparr>ExcludeProtocols := flag_exclude_protocols flags\<rparr>
                        else filterOpts);
          filterOpts = (if 0 < length (flag_warn_protocols flags)
                        then filterOpts\<lparr>WarnProtocols := flag_warn_protocols flags\<rparr>
                        else filterOpts);
          filterOpts = (if 0 < flag_max_url_length flags
                        then filterOpts\<lparr>MaxURLLength := flag_max_url_length flags\<rparr>
                        else filterOpts);
          filterOpts = (if 0 < flag_warn_url_length flags
                        then filterOpts\<lparr>WarnURLLength := flag_warn_url_length flags\<rparr>
                        else filterOpts)
      in filterOpts)"

text \<open>
  The post-filter update of \<open>runSync\<close>: the filtered and, when configured, deduplicated
  bookmarks, under the source descriptors of the collection that was read.
\<close>

definition filteredCollection :: "golib \<Rightarrow> Config \<Rightarrow> FilterOptions \<Rightarrow> Collection \<Rightarrow> Collection" where
  "filteredCollection G cfg filterOpts collection =
     (let filterResult = Filter G (Bookmarks collection) filterOpts;
          filtered = fr_Bookmarks filterResult;
          filtered = (if Pipeline_Transform_Deduplicate cfg then Deduplicate filtered
                      else filtered)
      in \<lparr>Bookmarks = filtered, Sources = Sources collection\<rparr>)"

text \<open>
  \<open>runSync\<close> from the empty collection to the collection that it hands to the renderer:
  reading in one of the two modes, the check for an empty result, filtering, and the
  post-filter update. The result is the error that \<open>runSync\<close> returns (\<open>Inl\<close>) or the
  world afterwards with the collection as read and the collection as rendered.
\<close>

definition runSync_collect ::
  "golib \<Rightarrow> SyncFlags \<Rightarrow> Config \<Rightarrow> world \<Rightarrow> string + (world \<times> Collection \<times> Collection)" where
  "runSync_collect G flags cfg w =
     (let collection = NewCollection;
          rd = (if flag_all flags
                then (case readAllInputs cfg w collection of
                        (Some e, _, _) \<Rightarrow> Inl e
                      | (None, w', c') \<Rightarrow> Inr (w', c'))
                else readPreferredInput cfg (flag_browser flags) (flag_profile flags) w collection)
      in case rd of
           Inl e \<Rightarrow> Inl e
         | Inr (w', collection) \<Rightarrow>
             if Count collection = 0 then Inl ''no bookmarks found''
             else Inr (w', collection,
                       filteredCollection G cfg (buildFilterOptions flags cfg) collection))"

section \<open>The protocol server (package mcp)\<close>

text \<open>
  \<open>Server\<close>: the configuration and the cache, \<open>None\<close> for the \<open>nil\<close> pointer. The lock
  \<open>cacheMu\<close> is left out: the request loop handles one request at a time.
\<close>

record Server =
  config :: Config
  cache :: "Collection option"

definition NewServer :: "Config \<Rightarrow> Server" where
  "NewServer cfg = \<lparr>config = cfg, cache = None\<rparr>"

text \<open>
  What the server takes from \<open>encoding/json\<close>: \<open>json.Unmarshal\<close> of the raw parameters
  into each of the three parameter structs (\<open>None\<close> when it returns an error), and
  \<open>json.MarshalIndent\<close> of the list of title and URL pairs.
\<close>

record jsonlib =
  Unmarshal_uri :: "string \<Rightarrow> string option"
  Unmarshal_call :: "string \<Rightarrow> (string \<times> string) option"
  Unmarshal_query :: "string \<Rightarrow> string option"
  MarshalIndent :: "(string \<times> string) list \<Rightarrow> string"

text \<open>A decoded request; the identifier and the raw parameters are kept as JSON text.\<close>

record Request =
  JSONRPC :: string
  ID :: string
  Method :: string
  Params :: string

record Error =
  Code :: int
  Message :: string

record Resource =
  URI :: string
  r_Name :: string
  Description :: string
  MimeType :: string

text \<open>\<open>Tool\<close>; the input schema is a constant of the source and is left out.\<close>

record Tool =
  t_Name :: string
  t_Description :: string

text \<open>
  The result maps that the handlers build: the protocol version, server name and server
  version of \<open>initialize\<close>; the resource list; the \<open>contents\<close> entry of a resource read
  with its URI, media type and text; the tool list; and the single text \<open>content\<close> entry
  of a tool call.
\<close>

datatype Result =
    InitializeResult string string string
  | ResourcesResult "Resource list"
  | ContentsResult string string string
  | ToolsResult "Tool list"
  | ContentResult string

record Response =
  resp_JSONRPC :: string
  resp_ID :: string
  resp_Result :: "Result option"
  resp_Error :: "Error option"

definition resultResponse :: "string \<Rightarrow> Result \<Rightarrow> Response" where
  "resultResponse id' r =
     \<lparr>resp_JSONRPC = ''2.0'', resp_ID = id', resp_Result = Some r, resp_Error = None\<rparr>"

definition errorResponse :: "string \<Rightarrow> int \<Rightarrow> string \<Rightarrow> Response" where
  "errorResponse id' code message =
     \<lparr>resp_JSONRPC = ''2.0'', resp_ID = id', resp_Result = None,
      resp_Error = Some \<lparr>Code = code, Message = message\<rparr>\<rparr>"

definition handleInitialize :: "Request \<Rightarrow> Response" where
  "handleInitialize req =
     resultResponse (ID req) (InitializeResult ''2024-11-05'' ''favs'' ''1.0.0'')"

text \<open>The loop of \<open>handleResourcesList\<close> over the names that \<open>ListInputs\<close> returned.\<close>

fun browser_resources :: "world \<Rightarrow> string list \<Rightarrow> Resource list" where
  "browser_resources w [] = []"
| "browser_resources w (name # names) =
     (case GetInput w name of
        None \<Rightarrow> browser_resources w names
      | Some inp \<Rightarrow>
          if \<not> Available inp then browser_resources w names
          else \<lparr>URI = ''favs://'' @ name,
                r_Name = DisplayName inp @ '' Bookmarks'',
                Description = ''Bookmarks from '' @ DisplayName inp,
                MimeType = ''application/json''\<rparr> # browser_resources w names)"

definition handleResourcesList :: "world \<Rightarrow> Request \<Rightarrow> Response" where
  "handleResourcesList w req =
     (let resources =
            [\<lparr>URI = ''favs://all'', r_Name = ''All Bookmarks'',
              Description = ''All browser bookmarks in JSON format'',
              MimeType = ''application/json''\<rparr>,
             \<lparr>URI = ''favs://markdown'', r_Name = ''Bookmarks (Markdown)'',
              Description = ''All browser bookmarks in Markdown format'',
              MimeType = ''text/markdown''\<rparr>]
            @ browser_resources w (ListInputs w)
      in resultResponse (ID req) (ResourcesResult resources))"

text \<open>
  The part of \<open>getBookmarks\<close> below the cache check and above the cache update: the
  server's all-sources read path, a loop over the names that \<open>ListInputs\<close> returned.
\<close>

definition readAllSources :: "Config \<Rightarrow> world \<Rightarrow> world \<times> Collection" where
  "readAllSources cfg w = fold (read_source cfg) (ListInputs w) (w, NewCollection)"

text \<open>
  \<open>getBookmarks\<close>: the collection and the error (\<open>nil\<close> on every path), with the world
  and the server afterwards. The parameter \<open>uri\<close> is not used in the body of the source.
\<close>

definition getBookmarks ::
  "world \<Rightarrow> Server \<Rightarrow> string \<Rightarrow> (Collection \<times> string option) \<times> world \<times> Server" where
  "getBookmarks w s uri =
     (case cache s of
        Some cached \<Rightarrow> ((cached, None), w, s)
      | None \<Rightarrow>
          (case readAllSources (config s) w of
             (w', collection) \<Rightarrow> ((collection, None), w', s\<lparr>cache := Some collection\<rparr>)))"

text \<open>
  The second half of \<open>handleResourcesRead\<close>, from the choice of the format on: the
  response for a collection.
\<close>

definition render_resource :: "nat \<Rightarrow> world \<Rightarrow> Request \<Rightarrow> string \<Rightarrow> Collection \<Rightarrow> Response" where
  "render_resource now w req uri collection =
     (let format = (if uri = ''favs://markdown'' then ''markdown'' else ''json'') in
      case GetOutput w format of
        None \<Rightarrow> errorResponse (ID req) (- 32000) ''Output adapter not found''
      | Some outAdapter \<Rightarrow>
          (case Render outAdapter now collection DefaultRenderOptions of
             Inl err \<Rightarrow> errorResponse (ID req) (- 32000) err
           | Inr data \<Rightarrow>
               (let mimeType = (if format = ''markdown'' then ''text/markdown''
                                else ''application/json'')
                in resultResponse (ID req) (ContentsResult uri mimeType data))))"

definition handleResourcesRead ::
  "jsonlib \<Rightarrow> nat \<Rightarrow> world \<Rightarrow> Server \<Rightarrow> Request \<Rightarrow> Response \<times> world \<times> Server" where
  "handleResourcesRead J now w s req =
     (case Unmarshal_uri J (Params req) of
        None \<Rightarrow> (errorResponse (ID req) (- 32602) ''Invalid params'', w, s)
      | Some uri \<Rightarrow>
          (case getBookmarks w s uri of
             ((collection, Some err), w', s') \<Rightarrow> (errorResponse (ID req) (- 32000) err, w', s')
           | ((collection, None), w', s') \<Rightarrow>
               (render_resource now w' req uri collection, w', s')))"

definition handleToolsList :: "Request \<Rightarrow> Response" where
  "handleToolsList req =
     resultResponse (ID req)
       (ToolsResult
          [\<lparr>t_Name = ''sync_bookmarks'',
            t_Description = ''Refresh bookmarks from all available browsers''\<rparr>,
           \<lparr>t_Name = ''search_bookmarks'',
            t_Description = ''Search bookmarks by title or URL''\<rparr>])"

definition toolSyncBookmarks :: "world \<Rightarrow> Server \<Rightarrow> Request \<Rightarrow> Response \<times> world \<times> Server" where
  "toolSyncBookmarks w s req =
     (case getBookmarks w (s\<lparr>cache := None\<rparr>) ''favs://all'' of
        ((collection, Some err), w', s') \<Rightarrow> (errorResponse (ID req) (- 32000) err, w', s')
      | ((collection, None), w', s') \<Rightarrow>
          (resultResponse (ID req)
             (ContentResult
                (''Synced '' @ Itoa (Count collection) @ '' bookmarks from ''
                   @ Itoa (int (length (Sources collection))) @ '' sources'')),
           w', s'))"

text \<open>The byte-wise lowering of \<open>equalIgnoreCase\<close>: \<open>A\<close> to \<open>Z\<close> are moved up by 32.\<close>

definition lower_byte :: "char \<Rightarrow> char" where
  "lower_byte c = (if CHR ''A'' \<le> c \<and> c \<le> CHR ''Z'' then char_of (of_char c + (32::nat)) else c)"

fun equal_loop :: "string \<Rightarrow> string \<Rightarrow> bool" where
  "equal_loop (ca # a) (cb # b) =
     (if lower_byte ca \<noteq> lower_byte cb then False else equal_loop a b)"
| "equal_loop a b = True"

definition equalIgnoreCase :: "string \<Rightarrow> string \<Rightarrow> bool" where
  "equalIgnoreCase a b = (if length a \<noteq> length b then False else equal_loop a b)"

text \<open>
  \<open>containsIgnoreCaseImpl\<close>: the loop runs \<open>i\<close> from 0 to \<open>len(s) - len(substr)\<close>
  inclusive, not at all when that bound is negative, and returns at the first match.
\<close>

definition containsIgnoreCaseImpl :: "string \<Rightarrow> string \<Rightarrow> bool" where
  "containsIgnoreCaseImpl s substr =
     (if int (length s) - int (length substr) < 0 then False
      else list_ex (\<lambda>i. equalIgnoreCase (take (length substr) (drop i s)) substr)
             [0..<Suc (length s - length substr)])"

definition containsIgnoreCase :: "string \<Rightarrow> string \<Rightarrow> bool" where
  "containsIgnoreCase s substr =
     (length substr \<le> length s
      \<and> (s = substr \<or> length substr = 0
         \<or> (0 < length s \<and> containsIgnoreCaseImpl s substr)))"

text \<open>The search loop of \<open>toolSearchBookmarks\<close>.\<close>

definition search_matches :: "string \<Rightarrow> Bookmark list \<Rightarrow> Bookmark list" where
  "search_matches query bs =
     filter (\<lambda>b. containsIgnoreCase (Title b) query \<or> containsIgnoreCase (URL b) query) bs"

definition toolSearchBookmarks ::
  "jsonlib \<Rightarrow> world \<Rightarrow> Server \<Rightarrow> Request \<Rightarrow> string \<Rightarrow> Response \<times> world \<times> Server" where
  "toolSearchBookmarks J w s req args =
     (case Unmarshal_query J args of
        None \<Rightarrow> (errorResponse (ID req) (- 32602) ''Invalid search arguments'', w, s)
      | Some query \<Rightarrow>
          (case getBookmarks w s ''favs://all'' of
             ((collection, Some err), w', s') \<Rightarrow> (errorResponse (ID req) (- 32000) err, w', s')
           | ((collection, None), w', s') \<Rightarrow>
               (let matches = search_matches query (Bookmarks collection);
                    results = map (\<lambda>b. (Title b, URL b)) matches;
                    resultJSON = MarshalIndent J results
                in (resultResponse (ID req)
                      (ContentResult
                         (''Found '' @ Itoa (int (length matches)) @ '' matches:''
                            @ [CHR 0x0A] @ resultJSON)),
                    w', s'))))"

definition handleToolsCall ::
  "jsonlib \<Rightarrow> world \<Rightarrow> Server \<Rightarrow> Request \<Rightarrow> Response \<times> world \<times> Server" where
  "handleToolsCall J w s req =
     (case Unmarshal_call J (Params req) of
        None \<Rightarrow> (errorResponse (ID req) (- 32602) ''Invalid params'', w, s)
      | Some (name, arguments) \<Rightarrow>
          if name = ''sync_bookmarks'' then toolSyncBookmarks w s req
          else if name = ''search_bookmarks'' then toolSearchBookmarks J w s req arguments
          else (errorResponse (ID req) (- 32602) ''Unknown tool'', w, s))"

definition handleRequest ::
  "jsonlib \<Rightarrow> nat \<Rightarrow> world \<Rightarrow> Server \<Rightarrow> Request \<Rightarrow> Response \<times> world \<times> Server" where
  "handleRequest J now w s req =
     (if Method req = ''initialize'' then (handleInitialize req, w, s)
      else if Method req = ''resources/list'' then (handleResourcesList w req, w, s)
      else if Method req = ''resources/read'' then handleResourcesRead J now w s req
      else if Method req = ''tools/list'' then (handleToolsList req, w, s)
      else if Method req = ''tools/call'' then handleToolsCall J w s req
      else (errorResponse (ID req) (- 32601) ''Method not found'', w, s))"

text \<open>
  The body of the loop of \<open>Run\<close> over the requests that were decoded, each with the clock
  reading at the time it is handled: the responses in order, and the world and the server
  at the end.
\<close>

fun handleRequests ::
  "jsonlib \<Rightarrow> (nat \<times> Request) list \<Rightarrow> world \<Rightarrow> Server \<Rightarrow> Response list \<times> world \<times> Server" where
  "handleRequests J [] w s = ([], w, s)"
| "handleRequests J ((now, req) # reqs) w s =
     (case handleRequest J now w s req of
        (resp, w', s') \<Rightarrow>
          (case handleRequests J reqs w' s' of
             (resps, w'', s'') \<Rightarrow> (resp # resps, w'', s'')))"

section \<open>The all-sources read path, as the specification words it\<close>

text \<open>
  For comparison with the code: the outcome of the read call that the all-sources path
  makes for a name in a world, \<open>None\<close> when it makes none (the name is not registered, the
  source is disabled or unavailable, or its configuration is rejected).
\<close>

definition read_result ::
  "Config \<Rightarrow> world \<Rightarrow> string \<Rightarrow> ((string + Bookmark list) \<times> Adapter) option" where
  "read_result cfg w name =
     (case GetInput w name of
        None \<Rightarrow> None
      | Some inp \<Rightarrow>
          if Enabled (GetInputConfig cfg name) \<and> Available inp
          then (case Configure inp
                       \<lparr>in_Enabled = True, in_Profile = [],
                        in_CustomPath = CustomPath (GetInputConfig cfg name)\<rparr> of
                  (Some err, inp1) \<Rightarrow> None
                | (None, inp1) \<Rightarrow> Some (Read inp1 ()))
          else None)"

text \<open>The records that such an outcome contributes: those of a successful read.\<close>

definition records_of :: "((string + Bookmark list) \<times> Adapter) option \<Rightarrow> Bookmark list" where
  "records_of r = (case r of Some (Inr bs, inp2) \<Rightarrow> bs | _ \<Rightarrow> [])"

text \<open>
  The source descriptors that such an outcome contributes: one for a successful read of
  at least one record, none otherwise.
\<close>

definition descriptors_of ::
  "string \<Rightarrow> ((string + Bookmark list) \<times> Adapter) option \<Rightarrow> SourceInfo list" where
  "descriptors_of name r =
     (case r of
        Some (Inr (b0 # bs), inp2) \<Rightarrow>
          [\<lparr>si_Name = name, si_Profile = Profile b0, si_Path = Path inp2,
            si_Count = int (length (b0 # bs))\<rparr>]
      | _ \<Rightarrow> [])"

text \<open>The invariant of the specification: the counts of the descriptors add up to the
  number of bookmarks.\<close>

definition counts_agree :: "Collection \<Rightarrow> bool" where
  "counts_agree c = (sum_list (map si_Count (Sources c)) = int (length (Bookmarks c)))"

section \<open>Requests by kind\<close>

text \<open>A \<open>resources/read\<close> request whose parameters decode to the given identifier.\<close>

definition is_resource_read :: "jsonlib \<Rightarrow> string \<Rightarrow> Request \<Rightarrow> bool" where
  "is_resource_read J uri req =
     (Method req = ''resources/read'' \<and> Unmarshal_uri J (Params req) = Some uri)"

text \<open>A \<open>tools/call\<close> request whose parameters decode to the tool \<open>sync_bookmarks\<close>.\<close>

definition is_resync :: "jsonlib \<Rightarrow> Request \<Rightarrow> bool" where
  "is_resync J req =
     (Method req = ''tools/call''
      \<and> map_option fst (Unmarshal_call J (Params req)) = Some ''sync_bookmarks'')"

section \<open>Concrete data for evaluating the model\<close>

text \<open>
  Instances of the library parameters: ASCII lowering, a pattern language in which every
  pattern compiles and matches as a literal substring, and a JSON codec in which the raw
  text is itself the decoded value (the tool name is the text before the first colon of
  the parameters, the arguments what follows it).
\<close>

definition ascii_golib :: golib where
  "ascii_golib = \<lparr>ToLower = map lower_byte, Compile = (\<lambda>p. Some (\<lambda>u. Contains u p))\<rparr>"

definition plain_json :: jsonlib where
  "plain_json =
     \<lparr>Unmarshal_uri = Some,
      Unmarshal_call = (\<lambda>p. Some (takeWhile (\<lambda>c. c \<noteq> CHR '':'') p,
                                    drop 1 (dropWhile (\<lambda>c. c \<noteq> CHR '':'') p))),
      Unmarshal_query = Some,
      MarshalIndent = (\<lambda>ps. Join (map snd ps) '' '')\<rparr>"

definition bm :: "string \<Rightarrow> string \<Rightarrow> string \<Rightarrow> Bookmark" where
  "bm title url source =
     \<lparr>Title = title, URL = url, FolderPath = [], DateAdded = 0, Source = source,
      Profile = ''Default'', Tags = []\<rparr>"

text \<open>An adapter that is always available, accepts every configuration and gives the
  same result at every read.\<close>

primcorec fixed_adapter :: "string \<Rightarrow> (string + Bookmark list) \<Rightarrow> Adapter" where
  "Name (fixed_adapter name r) = name"
| "DisplayName (fixed_adapter name r) = name"
| "Available (fixed_adapter name r) = True"
| "Path (fixed_adapter name r) = ''/'' @ name"
| "Configure (fixed_adapter name r) = (\<lambda>cfg. (None, fixed_adapter name r))"
| "Read (fixed_adapter name r) = (\<lambda>ctx. (r, fixed_adapter name r))"

text \<open>A renderer that writes the URLs of the bookmarks, separated by blanks.\<close>

definition url_renderer :: "string \<Rightarrow> OutputAdapter" where
  "url_renderer name =
     \<lparr>out_Name = name, Render = (\<lambda>now c opts. Inr (Join (map URL (Bookmarks c)) '' ''))\<rparr>"

definition enabled_input :: InputConfig where
  "enabled_input = \<lparr>Enabled = True, ic_Profile = [], CustomPath = []\<rparr>"

text \<open>Every browser enabled, the scheme \<open>javascript\<close> excluded, no deduplication.\<close>

definition test_config :: Config where
  "test_config =
     \<lparr>Inputs = \<lparr>Chrome = enabled_input, Edge = enabled_input, Firefox = enabled_input,
                Safari = enabled_input, Chromium = enabled_input, Brave = enabled_input\<rparr>,
      Pipeline_Filter =
        \<lparr>IncludeFolders = [], ExcludeFolders = [], ExcludeURLPatterns = [],
         ExcludeProtocols = [''javascript''], WarnProtocols = [],
         MaxURLLength = 0, WarnURLLength = 0\<rparr>,
      Pipeline_Transform_Deduplicate = False\<rparr>"

definition all_flags :: SyncFlags where
  "all_flags =
     \<lparr>flag_all = True, flag_browser = [], flag_profile = [], flag_exclude_protocols = [],
      flag_warn_protocols = [], flag_max_url_length = 0, flag_warn_url_length = 0\<rparr>"

definition three_bookmarks :: "Bookmark list" where
  "three_bookmarks =
     [bm ''A'' ''http://a'' ''chrome'', bm ''B'' ''javascript:alert(1)'' ''chrome'',
      bm ''A2'' ''http://a'' ''chrome'']"

text \<open>The registry with the two renderers that the server asks for and the given
  input adapters, registered in the order of the list.\<close>

definition world_of :: "Adapter list \<Rightarrow> world" where
  "world_of as =
     RegisterOutput (url_renderer ''markdown'')
       (RegisterOutput (url_renderer ''json'') (fold RegisterInput as empty_world))"

text \<open>Chrome gives three records, the read of Firefox fails.\<close>

definition world_failing :: world where
  "world_failing =
     world_of [fixed_adapter ''chrome'' (Inr three_bookmarks),
               fixed_adapter ''firefox'' (Inl ''database is locked'')]"

text \<open>Chrome and Firefox give one record each.\<close>

definition world_two :: world where
  "world_two =
     world_of [fixed_adapter ''firefox'' (Inr [bm ''Docs'' ''http://docs'' ''firefox'']),
               fixed_adapter ''chrome'' (Inr [bm ''GitHub'' ''https://github.com'' ''chrome''])]"

text \<open>The read of Chrome succeeds with no record.\<close>

definition world_no_records :: world where
  "world_no_records = world_of [fixed_adapter ''chrome'' (Inr [])]"

text \<open>An adapter that is registered but reports itself unavailable.\<close>

primcorec unavailable_adapter :: "string \<Rightarrow> Adapter" where
  "Name (unavailable_adapter name) = name"
| "DisplayName (unavailable_adapter name) = name"
| "Available (unavailable_adapter name) = False"
| "Path (unavailable_adapter name) = []"
| "Configure (unavailable_adapter name) = (\<lambda>cfg. (None, unavailable_adapter name))"
| "Read (unavailable_adapter name) = (\<lambda>ctx. (Inr [], unavailable_adapter name))"

text \<open>
  All six browsers registered, as the \<open>init\<close> functions leave the registry: Chrome
  gives three records, the read of Firefox fails, the read of Safari succeeds with no
  record, and Edge, Chromium and Brave are unavailable.
\<close>

definition world_six :: world where
  "world_six =
     world_of [unavailable_adapter ''chromium'',
               fixed_adapter ''chrome'' (Inr three_bookmarks),
               unavailable_adapter ''edge'',
               unavailable_adapter ''brave'',
               fixed_adapter ''firefox'' (Inl ''database is locked''),
               fixed_adapter ''safari'' (Inr [])]"

text \<open>What the all-sources path reads in \<open>world_failing\<close>, and what \<open>runSync\<close> then
  hands to the renderer.\<close>

definition read_collection :: Collection where
  "read_collection =
     \<lparr>Bookmarks = three_bookmarks,
      Sources = [\<lparr>si_Name = ''chrome'', si_Profile = ''Default'', si_Path = ''/chrome'',
                  si_Count = 3\<rparr>]\<rparr>"

definition rendered_collection :: Collection where
  "rendered_collection =
     \<lparr>Bookmarks = [bm ''A'' ''http://a'' ''chrome'', bm ''A2'' ''http://a'' ''chrome''],
      Sources = [\<lparr>si_Name = ''chrome'', si_Profile = ''Default'', si_Path = ''/chrome'',
                  si_Count = 3\<rparr>]\<rparr>"

text \<open>What the server reads in \<open>world_two\<close>.\<close>

definition two_collection :: Collection where
  "two_collection =
     \<lparr>Bookmarks = [bm ''GitHub'' ''https://github.com'' ''chrome'',
                   bm ''Docs'' ''http://docs'' ''firefox''],
      Sources = [\<lparr>si_Name = ''chrome'', si_Profile = ''Default'', si_Path = ''/chrome'',
                  si_Count = 1\<rparr>,
                 \<lparr>si_Name = ''firefox'', si_Profile = ''Default'', si_Path = ''/firefox'',
                  si_Count = 1\<rparr>]\<rparr>"

text \<open>The world after a first read in \<open>world_two\<close>, the world after a resync that
  follows it, and the server from the first read on.\<close>

definition once_read_world :: world where
  "once_read_world = world_two\<lparr>reads := [''chrome'', ''firefox'']\<rparr>"

definition resynced_world :: world where
  "resynced_world = world_two\<lparr>reads := [''chrome'', ''firefox'', ''chrome'', ''firefox'']\<rparr>"

definition cached_server :: Server where
  "cached_server = \<lparr>config = test_config, cache = Some two_collection\<rparr>"

definition request :: "string \<Rightarrow> string \<Rightarrow> Request" where
  "request method params = \<lparr>JSONRPC = ''2.0'', ID = ''1'', Method = method, Params = params\<rparr>"

definition read_all_request :: Request where
  "read_all_request = request ''resources/read'' ''favs://all''"

definition resync_request :: Request where
  "resync_request = request ''tools/call'' ''sync_bookmarks:''"

text \<open>The response to a read of the given resource in \<open>world_two\<close>.\<close>

definition two_page :: "string \<Rightarrow> Response" where
  "two_page uri =
     resultResponse ''1''
       (ContentsResult uri ''application/json'' ''https://github.com http://docs'')"

section \<open>Properties of the filter engine\<close>

lemma filter_loop_bookmarks:
  "fr_Bookmarks (filter_loop G opts ps ex wa bs res) =
     fr_Bookmarks res @ filter (\<lambda>b. \<not> is_excluded opts ps ex (extractProtocol G (URL b)) b) bs"
  by (induction bs arbitrary: res) (simp_all add: Let_def)

lemma filter_loop_excluded:
  "Excluded (filter_loop G opts ps ex wa bs res) =
     Excluded res
       + int (length (filter (\<lambda>b. is_excluded opts ps ex (extractProtocol G (URL b)) b) bs))"
  by (induction bs arbitrary: res) (simp_all add: Let_def)

lemma Filter_kept_of_input: "subseq (fr_Bookmarks (Filter G R F)) R"
  unfolding Filter_def Let_def filter_loop_bookmarks by simp

text \<open>
  Claim C5. For every record sequence and every rule set, the exclusion counter of the
  filter engine plus the number of kept records is the number of input records.
\<close>

theorem filter_excluded_plus_kept:
  "Excluded (Filter G R F) + int (length (fr_Bookmarks (Filter G R F))) = int (length R)"
  unfolding Filter_def Let_def filter_loop_bookmarks filter_loop_excluded
  using sum_length_filter_compl
    [of "\<lambda>b. is_excluded F (compile_patterns G (ExcludeURLPatterns F))
               (proto_table G (ExcludeProtocols F)) (extractProtocol G (URL b)) b" R]
  by simp

text \<open>
  Claim C6. For every record sequence and every rule set, the kept records are a
  subsequence of the input, in the order of the input.
\<close>

theorem filter_kept_subseq: "subseq (fr_Bookmarks (Filter G R F)) R"
  unfolding Filter_def Let_def filter_loop_bookmarks by simp

section \<open>Properties of deduplication\<close>

lemma dedup_loop_eq:
  "dedup_loop bs seen result =
     result @ map (\<lambda>i. bs ! i)
       (filter (\<lambda>i. \<not> seen (URL (bs ! i)) \<and> URL (bs ! i) \<notin> set (map URL (take i bs)))
          [0..<length bs])"
proof (induction bs arbitrary: seen result)
  case Nil
  then show ?case by simp
next
  case (Cons b bs)
  have upt: "[0..<length (b # bs)] = 0 # map Suc [0..<length bs]"
    by (simp add: upt_conv_Cons map_Suc_upt del: upt_Suc)
  show ?case
  proof (cases "seen (URL b)")
    case True
    have "filter (\<lambda>i. \<not> seen (URL (bs ! i)) \<and> URL (bs ! i) \<notin> URL ` set (take i bs))
            [0..<length bs]
        = filter (\<lambda>x. \<not> seen (URL (bs ! x)) \<and> URL (bs ! x) \<noteq> URL b
                       \<and> URL (bs ! x) \<notin> URL ` set (take x bs)) [0..<length bs]"
      using True by (intro filter_cong) auto
    with True show ?thesis
      unfolding upt by (simp add: Cons.IH filter_map comp_def)
  next
    case False
    have "filter (\<lambda>i. URL (bs ! i) \<noteq> URL b \<and> \<not> seen (URL (bs ! i))
                       \<and> URL (bs ! i) \<notin> URL ` set (take i bs)) [0..<length bs]
        = filter (\<lambda>x. \<not> seen (URL (bs ! x)) \<and> URL (bs ! x) \<noteq> URL b
                       \<and> URL (bs ! x) \<notin> URL ` set (take x bs)) [0..<length bs]"
      by (intro filter_cong) auto
    with False show ?thesis
      unfolding upt by (simp add: Cons.IH filter_map comp_def cong: conj_cong)
  qed
qed

lemma Deduplicate_first_occurrences: "Deduplicate R = first_occurrences R"
  by (simp add: Deduplicate_def first_occurrences_def dedup_loop_eq)

lemma dedup_loop_append:
  "dedup_loop bs seen result = result @ dedup_loop bs seen []"
  by (simp add: dedup_loop_eq)

lemma dedup_loop_Cons:
  "dedup_loop (b # bs) seen [] =
     (if seen (URL b) then dedup_loop bs seen []
      else b # dedup_loop bs (seen(URL b := True)) [])"
  using dedup_loop_append [of bs "seen(URL b := True)" "[b]"] by simp

lemma dedup_loop_unseen:
  "x \<in> set (dedup_loop bs seen []) \<Longrightarrow> \<not> seen (URL x)"
proof (induction bs arbitrary: seen)
  case Nil
  then show ?case by simp
next
  case (Cons b bs)
  show ?case
  proof (cases "seen (URL b)")
    case True
    with Cons show ?thesis by (simp add: dedup_loop_Cons del: dedup_loop.simps)
  next
    case False
    with Cons.prems have "x = b \<or> x \<in> set (dedup_loop bs (seen(URL b := True)) [])"
      by (simp add: dedup_loop_Cons del: dedup_loop.simps)
    then show ?thesis
    proof
      assume "x = b" with False show ?thesis by simp
    next
      assume "x \<in> set (dedup_loop bs (seen(URL b := True)) [])"
      from Cons.IH [OF this] show ?thesis by (simp split: if_splits)
    qed
  qed
qed

lemma dedup_loop_distinct:
  "distinct (map URL (dedup_loop bs seen []))"
proof (induction bs arbitrary: seen)
  case Nil
  then show ?case by simp
next
  case (Cons b bs)
  have "URL b \<notin> URL ` set (dedup_loop bs (seen(URL b := True)) [])"
    using dedup_loop_unseen [of _ bs "seen(URL b := True)"] by fastforce
  with Cons show ?case
    by (simp add: dedup_loop_Cons del: dedup_loop.simps)
qed

lemma dedup_loop_fixed:
  "distinct (map URL bs) \<Longrightarrow> (\<And>b. b \<in> set bs \<Longrightarrow> \<not> seen (URL b)) \<Longrightarrow>
   dedup_loop bs seen [] = bs"
proof (induction bs arbitrary: seen)
  case Nil
  then show ?case by simp
next
  case (Cons b bs)
  have "dedup_loop bs (seen(URL b := True)) [] = bs"
  proof (rule Cons.IH)
    show "distinct (map URL bs)" using Cons.prems(1) by simp
  next
    fix x assume "x \<in> set bs"
    with Cons.prems show "\<not> (seen(URL b := True)) (URL x)" by (auto simp: image_iff)
  qed
  moreover have "\<not> seen (URL b)" using Cons.prems(2) by simp
  ultimately show ?case
    by (simp add: dedup_loop_Cons del: dedup_loop.simps)
qed

lemma Deduplicate_idem: "Deduplicate (Deduplicate R) = Deduplicate R"
  unfolding Deduplicate_def
  by (rule dedup_loop_fixed) (simp_all add: dedup_loop_distinct)

lemma subseq_dedup_loop: "subseq (dedup_loop bs seen []) bs"
proof (induction bs arbitrary: seen)
  case Nil
  then show ?case by simp
next
  case (Cons b bs)
  then show ?case
    by (auto simp add: dedup_loop_Cons intro: subseq_Cons' list_emb_Cons
        simp del: dedup_loop.simps)
qed

lemma subseq_Deduplicate: "subseq (Deduplicate bs) bs"
  by (simp add: Deduplicate_def subseq_dedup_loop)

text \<open>
  Claim C8. Deduplicating twice is deduplicating once, and deduplication keeps exactly
  the first record of every URL, the records that stay keeping their order.
\<close>

theorem deduplicate_idempotent_first:
  "Deduplicate (Deduplicate R) = Deduplicate R \<and> Deduplicate R = first_occurrences R"
  using Deduplicate_idem [of R] Deduplicate_first_occurrences [of R] by blast

section \<open>Properties of the registry\<close>

lemma GetInput_RegisterInput:
  "GetInput (RegisterInput a w) x = (if x = Name a then Some a else GetInput w x)"
  by (simp add: GetInput_def RegisterInput_def update_conv')

lemma inputs_keys_RegisterInput:
  "fst ` set (inputs (RegisterInput a w)) = insert (Name a) (fst ` set (inputs w))"
  by (simp add: RegisterInput_def dom_update)

lemma inputs_keys_fold_RegisterInput:
  "fst ` set (inputs (fold RegisterInput as w)) = Name ` set as \<union> fst ` set (inputs w)"
  by (induction as arbitrary: w) (simp_all add: inputs_keys_RegisterInput)

lemma inputs_distinct_fold_RegisterInput:
  "distinct (map fst (inputs w)) \<Longrightarrow> distinct (map fst (inputs (fold RegisterInput as w)))"
  by (induction as arbitrary: w) (simp_all add: RegisterInput_def distinct_update)

lemma ListInputs_sorted_list_of_set:
  "distinct (map fst (inputs w)) \<Longrightarrow> ListInputs w = sorted_list_of_set (fst ` set (inputs w))"
  unfolding ListInputs_def
  using sorted_list_of_set_sort_remdups [of "map fst (inputs w)"]
  by (simp add: distinct_remdups_id)

text \<open>
  Claim C9. After an adapter \<open>A\<close> and then an adapter \<open>B\<close> have been registered under the
  same name \<open>x\<close>, the lookup of \<open>x\<close> returns \<open>B\<close>. The listing of any registry is sorted,
  and the listing of a registry filled from the empty one is the sorted list, without
  repetition, of the names registered, whatever the order of the registrations.
\<close>

theorem registry_last_wins_sorted:
  assumes "Name A = x" and "Name B = x"
  shows "GetInput (RegisterInput B (RegisterInput A w)) x = Some B
       \<and> sorted (ListInputs w)
       \<and> ListInputs (fold RegisterInput as empty_world) = sorted_list_of_set (Name ` set as)"
proof -
  have "distinct (map fst (inputs (fold RegisterInput as empty_world)))"
    by (rule inputs_distinct_fold_RegisterInput) (simp add: empty_world_def)
  then have "ListInputs (fold RegisterInput as empty_world)
           = sorted_list_of_set (Name ` set as)"
    by (simp add: ListInputs_sorted_list_of_set inputs_keys_fold_RegisterInput empty_world_def)
  moreover have "sorted (ListInputs w)" by (simp add: ListInputs_def)
  ultimately show ?thesis using assms by (simp add: GetInput_RegisterInput)
qed

theorem registry_last_wins_sorted_witness:
  "Name (fixed_adapter ''x'' (Inl ''first'')) = ''x''
   \<and> Name (fixed_adapter ''x'' (Inr [])) = ''x''
   \<and> GetInput (RegisterInput (fixed_adapter ''x'' (Inr []))
                 (RegisterInput (fixed_adapter ''x'' (Inl ''first'')) empty_world)) ''x''
       = Some (fixed_adapter ''x'' (Inr []))
   \<and> ListInputs (fold RegisterInput
                   [fixed_adapter ''firefox'' (Inr []), fixed_adapter ''chrome'' (Inr []),
                    fixed_adapter ''firefox'' (Inl ''again'')] empty_world)
       = [''chrome'', ''firefox'']"
proof -
  have names: "Name (fixed_adapter ''x'' (Inl ''first'')) = ''x''"
    "Name (fixed_adapter ''x'' (Inr [])) = ''x''"
    by simp_all
  have "sorted_list_of_set
          (Name ` set [fixed_adapter ''firefox'' (Inr []), fixed_adapter ''chrome'' (Inr []),
                       fixed_adapter ''firefox'' (Inl ''again'')])
        = [''chrome'', ''firefox'']"
    unfolding set_map [symmetric] sorted_list_of_set_sort_remdups by simp
  with registry_last_wins_sorted [OF names, of empty_world
      "[fixed_adapter ''firefox'' (Inr []), fixed_adapter ''chrome'' (Inr []),
        fixed_adapter ''firefox'' (Inl ''again'')]"]
  show ?thesis by simp
qed

section \<open>Properties of the all-sources read path\<close>

lemma GetInput_store_input:
  "GetInput (store_input n inp w) m = (if m = n then Some inp else GetInput w m)"
  by (simp add: GetInput_def store_input_def update_conv')

lemma GetInput_log_read: "GetInput (log_read n w) m = GetInput w m"
  by (simp add: GetInput_def log_read_def)

text \<open>An iteration for one name leaves the registry entries of all other names alone.\<close>

lemma read_source_frame:
  "m \<noteq> name \<Longrightarrow> GetInput (fst (read_source cfg name (w, c))) m = GetInput w m"
  by (simp add: read_source_def GetInput_store_input GetInput_log_read Let_def
      split: option.splits prod.splits sum.splits list.splits)

text \<open>What an iteration appends is what the outcome of its read call contributes.\<close>

lemma read_source_collection:
  "snd (read_source cfg name (w, c)) =
     c\<lparr>Bookmarks := Bookmarks c @ records_of (read_result cfg w name),
       Sources := Sources c @ descriptors_of name (read_result cfg w name)\<rparr>"
  by (simp add: read_source_def read_result_def records_of_def descriptors_of_def Add_def Let_def
      split: option.splits prod.splits sum.splits list.splits)

lemma read_result_cong:
  "GetInput w name = GetInput w' name \<Longrightarrow> read_result cfg w name = read_result cfg w' name"
  by (simp add: read_result_def)

lemma fold_read_source_collection:
  "distinct names \<Longrightarrow>
   snd (fold (read_source cfg) names (w, c)) =
     c\<lparr>Bookmarks := Bookmarks c @ concat (map (\<lambda>n. records_of (read_result cfg w n)) names),
       Sources := Sources c @ concat (map (\<lambda>n. descriptors_of n (read_result cfg w n)) names)\<rparr>"
proof (induction names arbitrary: w c)
  case Nil
  then show ?case by simp
next
  case (Cons n names)
  obtain w1 c1 where step: "read_source cfg n (w, c) = (w1, c1)"
    by (cases "read_source cfg n (w, c)")
  have c1: "c1 = c\<lparr>Bookmarks := Bookmarks c @ records_of (read_result cfg w n),
                    Sources := Sources c @ descriptors_of n (read_result cfg w n)\<rparr>"
    using read_source_collection [of cfg n w c] step by simp
  have same: "read_result cfg w1 m = read_result cfg w m" if "m \<in> set names" for m
  proof (rule read_result_cong)
    from that Cons.prems have "m \<noteq> n" by auto
    then show "GetInput w1 m = GetInput w m"
      using read_source_frame [of m n cfg w c] step by simp
  qed
  have "snd (fold (read_source cfg) names (w1, c1)) =
     c1\<lparr>Bookmarks := Bookmarks c1 @ concat (map (\<lambda>n. records_of (read_result cfg w1 n)) names),
        Sources := Sources c1
          @ concat (map (\<lambda>n. descriptors_of n (read_result cfg w1 n)) names)\<rparr>"
    using Cons.prems by (intro Cons.IH) simp
  also have "map (\<lambda>n. records_of (read_result cfg w1 n)) names
           = map (\<lambda>n. records_of (read_result cfg w n)) names"
    using same by simp
  also have "map (\<lambda>n. descriptors_of n (read_result cfg w1 n)) names
           = map (\<lambda>n. descriptors_of n (read_result cfg w n)) names"
    using same by simp
  finally show ?case by (simp add: step c1)
qed

lemma distinct_inputPreference: "distinct inputPreference"
  by (simp add: inputPreference_def)

lemma readAllInputs_collection:
  "snd (snd (readAllInputs cfg w c)) =
     c\<lparr>Bookmarks := Bookmarks c
          @ concat (map (\<lambda>n. records_of (read_result cfg w n)) inputPreference),
       Sources := Sources c
          @ concat (map (\<lambda>n. descriptors_of n (read_result cfg w n)) inputPreference)\<rparr>"
  using fold_read_source_collection [OF distinct_inputPreference, of cfg w c]
  by (simp add: readAllInputs_def split: prod.splits)

lemma readAllInputs_no_error: "fst (readAllInputs cfg w c) = None"
  by (simp add: readAllInputs_def split: prod.splits)

text \<open>
  The association list stands for a Go map, so its keys are distinct; registration from
  the empty registry makes it so, and the listing of the names then has no repetition.
\<close>

lemma distinct_ListInputs:
  "distinct (map fst (inputs w)) \<Longrightarrow> distinct (ListInputs w)"
  by (simp add: ListInputs_def)

lemma readAllSources_collection:
  "distinct (map fst (inputs w)) \<Longrightarrow>
   snd (readAllSources cfg w) =
     \<lparr>Bookmarks = concat (map (\<lambda>n. records_of (read_result cfg w n)) (ListInputs w)),
      Sources = concat (map (\<lambda>n. descriptors_of n (read_result cfg w n)) (ListInputs w))\<rparr>"
  using fold_read_source_collection [OF distinct_ListInputs, of w cfg w NewCollection]
  by (simp add: readAllSources_def NewCollection_def)

lemma read_result_eq:
  assumes "GetInput w name = Some inp" "Enabled (GetInputConfig cfg name)" "Available inp"
    and "Configure inp \<lparr>in_Enabled = True, in_Profile = [],
                          in_CustomPath = CustomPath (GetInputConfig cfg name)\<rparr> = (None, inp1)"
  shows "read_result cfg w name = Some (Read inp1 ())"
  using assms by (simp add: read_result_def)

lemma read_result_unregistered: "GetInput w name = None \<Longrightarrow> read_result cfg w name = None"
  by (simp add: read_result_def)

lemma concat_map_single:
  "distinct ns \<Longrightarrow> s1 \<in> set ns \<Longrightarrow> (\<And>n. n \<in> set ns \<Longrightarrow> n \<noteq> s1 \<Longrightarrow> f n = []) \<Longrightarrow>
   concat (map f ns) = f s1"
proof (induction ns)
  case Nil
  then show ?case by simp
next
  case (Cons n ns)
  show ?case
  proof (cases "n = s1")
    case True
    have "f m = []" if "m \<in> set ns" for m
      using that Cons.prems(1,3) True by auto
    then have "concat (map f ns) = []" by simp
    with True show ?thesis by simp
  next
    case False
    then have "f n = []" using Cons.prems(3) by simp
    moreover have "concat (map f ns) = f s1"
      using Cons.prems False by (intro Cons.IH) auto
    ultimately show ?thesis by simp
  qed
qed

subsection \<open>Evaluation on the concrete worlds\<close>

lemmas world_defs = world_failing_def world_two_def world_no_records_def world_of_def
  RegisterInput_def RegisterOutput_def empty_world_def test_config_def enabled_input_def

lemmas read_defs = readAllInputs_def read_source_def GetInput_def GetInputConfig_def
  inputPreference_def store_input_def log_read_def Add_def NewCollection_def

lemmas filter_defs = Filter_def proto_table_def extractProtocol_def is_excluded_def
  lower_byte_def less_eq_char_def Let_def ascii_golib_def

lemma readAllInputs_world_failing:
  "readAllInputs test_config world_failing NewCollection =
     (None, world_failing\<lparr>reads := [''chrome'', ''firefox'']\<rparr>, read_collection)"
  by (simp add: world_defs read_defs read_collection_def three_bookmarks_def bm_def)

lemma readAllInputs_world_no_records:
  "readAllInputs test_config world_no_records NewCollection =
     (None, world_no_records\<lparr>reads := [''chrome'']\<rparr>, NewCollection)"
  by (simp add: world_defs read_defs)

lemma read_result_world_no_records:
  "read_result test_config world_no_records ''chrome''
     = Some (Inr [], fixed_adapter ''chrome'' (Inr []))"
  by (simp add: world_defs read_defs read_result_def)

lemma runSync_collect_world_failing:
  "runSync_collect ascii_golib all_flags test_config world_failing =
     Inr (world_failing\<lparr>reads := [''chrome'', ''firefox'']\<rparr>, read_collection,
          rendered_collection)"
  by (simp add: runSync_collect_def readAllInputs_world_failing all_flags_def Count_def
      read_collection_def three_bookmarks_def)
     (simp add: rendered_collection_def filteredCollection_def buildFilterOptions_def
      filter_defs test_config_def bm_def)

lemma ListInputs_world_two: "ListInputs (world_two\<lparr>reads := r\<rparr>) = [''chrome'', ''firefox'']"
  by (simp add: ListInputs_def world_defs)

lemma readAllSources_world_two:
  "readAllSources test_config (world_two\<lparr>reads := r\<rparr>)
     = (world_two\<lparr>reads := r @ [''chrome'', ''firefox'']\<rparr>, two_collection)"
  by (simp add: readAllSources_def ListInputs_world_two)
     (simp add: world_defs read_defs two_collection_def bm_def)

lemma world_two_reads: "world_two\<lparr>reads := []\<rparr> = world_two"
  by (simp add: world_defs)

subsection \<open>One descriptor for each successful read of at least one record\<close>

text \<open>
  Claim C3, as the code has it. In the all-sources read path, of the orchestrator over
  the preference list and of the server over the listed names of a registry with
  distinct keys, the descriptors appended are, in the order of the names, those of the
  read outcomes: a read that succeeds with at least one record appends exactly one
  descriptor, carrying the name, the profile of the first record, the path and the number
  of records; a read that succeeds with no record appends none, as does a failed read or
  a source that is not read at all.
\<close>

theorem all_sources_descriptors:
  "Sources (snd (snd (readAllInputs cfg w c))) =
     Sources c
       @ concat (map (\<lambda>name. descriptors_of name (read_result cfg w name)) inputPreference)
   \<and> (distinct (map fst (inputs w)) \<longrightarrow>
        Sources (snd (readAllSources cfg w)) =
          concat (map (\<lambda>name. descriptors_of name (read_result cfg w name)) (ListInputs w)))
   \<and> descriptors_of name None = []
   \<and> descriptors_of name (Some (Inl e, a)) = []
   \<and> descriptors_of name (Some (Inr [], a)) = []
   \<and> descriptors_of name (Some (Inr (b # bs), a)) =
        [\<lparr>si_Name = name, si_Profile = Profile b, si_Path = Path a,
          si_Count = int (length (b # bs))\<rparr>]"
proof -
  have orchestrator:
    "Sources (snd (snd (readAllInputs cfg w c))) =
       Sources c
         @ concat (map (\<lambda>name. descriptors_of name (read_result cfg w name)) inputPreference)"
    by (simp add: readAllInputs_collection)
  have server:
    "Sources (snd (readAllSources cfg w)) =
       concat (map (\<lambda>name. descriptors_of name (read_result cfg w name)) (ListInputs w))"
    if "distinct (map fst (inputs w))"
    using readAllSources_collection [OF that, of cfg] by simp
  have outcomes:
    "descriptors_of name None = []"
    "descriptors_of name (Some (Inl e, a)) = []"
    "descriptors_of name (Some (Inr [], a)) = []"
    "descriptors_of name (Some (Inr (b # bs), a)) =
       [\<lparr>si_Name = name, si_Profile = Profile b, si_Path = Path a,
         si_Count = int (length (b # bs))\<rparr>]"
    by (simp_all add: descriptors_of_def)
  from orchestrator server outcomes show ?thesis by blast
qed

theorem all_sources_descriptors_witness:
  "Sources (snd (snd (readAllInputs test_config world_failing NewCollection))) =
     [\<lparr>si_Name = ''chrome'', si_Profile = ''Default'', si_Path = ''/chrome'', si_Count = 3\<rparr>]
   \<and> distinct (map fst (inputs world_two))
   \<and> Sources (snd (readAllSources test_config world_two)) =
       [\<lparr>si_Name = ''chrome'', si_Profile = ''Default'', si_Path = ''/chrome'', si_Count = 1\<rparr>,
        \<lparr>si_Name = ''firefox'', si_Profile = ''Default'', si_Path = ''/firefox'',
         si_Count = 1\<rparr>]
   \<and> concat (map (\<lambda>name. descriptors_of name (read_result test_config world_two name))
               (ListInputs world_two)) = Sources two_collection"
proof -
  have d: "distinct (map fst (inputs world_two))"
    by (simp add: world_defs)
  have two: "snd (readAllSources test_config world_two) = two_collection"
    using readAllSources_world_two [of "[]"] by (simp add: world_two_reads)
  from all_sources_descriptors [of test_config world_failing NewCollection] d
    all_sources_descriptors [of test_config world_two NewCollection] two
  show ?thesis
    by (simp add: readAllInputs_world_failing read_collection_def)
       (simp add: two_collection_def)
qed

text \<open>
  The claim as stated fails: in \<open>world_no_records\<close> the read of Chrome succeeds with
  no record, and the collection has no descriptor afterwards.
\<close>

theorem empty_read_no_descriptor_counterexample:
  "read_result test_config world_no_records ''chrome''
     = Some (Inr [], fixed_adapter ''chrome'' (Inr []))
   \<and> reads (fst (snd (readAllInputs test_config world_no_records NewCollection)))
     = [''chrome'']
   \<and> Sources (snd (snd (readAllInputs test_config world_no_records NewCollection))) = []"
  by (simp add: read_result_world_no_records readAllInputs_world_no_records)
     (simp_all add: NewCollection_def)

subsection \<open>A failed read is skipped\<close>

lemma descriptors_of_no_records:
  "records_of r = [] \<Longrightarrow> descriptors_of name r = []"
  by (simp add: records_of_def descriptors_of_def
      split: option.splits prod.splits sum.splits list.splits)

lemma readAllInputs_world_six:
  "readAllInputs test_config world_six NewCollection =
     (None, world_six\<lparr>reads := [''chrome'', ''firefox'', ''safari'']\<rparr>, read_collection)"
  by (simp add: world_six_def world_defs read_defs read_collection_def three_bookmarks_def
      bm_def)

text \<open>
  Claim C7. In all-sources mode, let \<open>s1\<close> and \<open>s2\<close> be two sources of the preference
  list, both registered, enabled, available and configured without error, where the read
  of \<open>s1\<close> returns three records and the read of \<open>s2\<close> fails, and let every other source
  of the preference list, registered or not, contribute no record (it is skipped, its
  read fails, or its read returns nothing). Then \<open>readAllInputs\<close> returns no error, the
  collection holds exactly those three records and exactly one descriptor, that of
  \<open>s1\<close>, and \<open>runSync\<close> in all-sources mode gets past its reading and filtering without
  failing.
\<close>

theorem failed_source_skipped:
  assumes pref: "s1 \<in> set inputPreference" "s2 \<in> set inputPreference" "s1 \<noteq> s2"
    and others: "\<And>n. n \<in> set inputPreference \<Longrightarrow> n \<noteq> s1 \<Longrightarrow> n \<noteq> s2 \<Longrightarrow>
                   records_of (read_result cfg w n) = []"
    and s1: "GetInput w s1 = Some a1" "Enabled (GetInputConfig cfg s1)" "Available a1"
      "Configure a1 \<lparr>in_Enabled = True, in_Profile = [],
                     in_CustomPath = CustomPath (GetInputConfig cfg s1)\<rparr> = (None, a1')"
      "Read a1' () = (Inr bs, a1'')" "length bs = 3"
    and s2: "GetInput w s2 = Some a2" "Enabled (GetInputConfig cfg s2)" "Available a2"
      "Configure a2 \<lparr>in_Enabled = True, in_Profile = [],
                     in_CustomPath = CustomPath (GetInputConfig cfg s2)\<rparr> = (None, a2')"
      "Read a2' () = (Inl e, a2'')"
  shows "fst (readAllInputs cfg w NewCollection) = None
       \<and> Bookmarks (snd (snd (readAllInputs cfg w NewCollection))) = bs
       \<and> length (Bookmarks (snd (snd (readAllInputs cfg w NewCollection)))) = 3
       \<and> map si_Name (Sources (snd (snd (readAllInputs cfg w NewCollection)))) = [s1]
       \<and> \<not> isl (runSync_collect G (flags\<lparr>flag_all := True\<rparr>) cfg w)"
proof -
  have r1: "read_result cfg w s1 = Some (Inr bs, a1'')"
    using read_result_eq [OF s1(1-4)] s1(5) by simp
  have r2: "read_result cfg w s2 = Some (Inl e, a2'')"
    using read_result_eq [OF s2(1-4)] s2(5) by simp
  have rest: "records_of (read_result cfg w n) = []"
    if "n \<in> set inputPreference" "n \<noteq> s1" for n
  proof (cases "n = s2")
    case True
    with r2 show ?thesis by (simp add: records_of_def)
  next
    case False
    with that others show ?thesis by simp
  qed
  have recs: "concat (map (\<lambda>n. records_of (read_result cfg w n)) inputPreference)
            = records_of (read_result cfg w s1)"
    using rest by (intro concat_map_single [OF distinct_inputPreference pref(1)])
  have descs: "concat (map (\<lambda>n. descriptors_of n (read_result cfg w n)) inputPreference)
            = descriptors_of s1 (read_result cfg w s1)"
  proof (rule concat_map_single [OF distinct_inputPreference pref(1)])
    fix n assume "n \<in> set inputPreference" "n \<noteq> s1"
    from rest [OF this] show "descriptors_of n (read_result cfg w n) = []"
      by (rule descriptors_of_no_records)
  qed
  from s1(6) obtain b0 bs' where bs: "bs = b0 # bs'" by (cases bs) auto
  have recs1: "records_of (read_result cfg w s1) = bs"
    by (simp add: r1 records_of_def)
  have descs1: "map si_Name (descriptors_of s1 (read_result cfg w s1)) = [s1]"
    by (simp add: r1 descriptors_of_def bs)
  have coll: "Bookmarks (snd (snd (readAllInputs cfg w NewCollection))) = bs"
    "map si_Name (Sources (snd (snd (readAllInputs cfg w NewCollection)))) = [s1]"
    by (simp_all add: readAllInputs_collection recs descs recs1 descs1 NewCollection_def)
  obtain e' w' c' where ra: "readAllInputs cfg w NewCollection = (e', w', c')"
    by (cases "readAllInputs cfg w NewCollection")
  with readAllInputs_no_error [of cfg w NewCollection] coll(1) s1(6)
  have "e' = None" "Count c' = 3"
    by (simp_all add: Count_def)
  then have "\<not> isl (runSync_collect G (flags\<lparr>flag_all := True\<rparr>) cfg w)"
    by (simp add: runSync_collect_def ra)
  with coll s1(6) show ?thesis
    by (simp add: readAllInputs_no_error)
qed

theorem failed_source_skipped_witness:
  "''chrome'' \<in> set inputPreference \<and> ''firefox'' \<in> set inputPreference
   \<and> map fst (inputs world_six)
       = [''chromium'', ''chrome'', ''edge'', ''brave'', ''firefox'', ''safari'']
   \<and> records_of (read_result test_config world_six ''edge'') = []
   \<and> records_of (read_result test_config world_six ''safari'') = []
   \<and> records_of (read_result test_config world_six ''chromium'') = []
   \<and> records_of (read_result test_config world_six ''brave'') = []
   \<and> GetInput world_six ''chrome'' = Some (fixed_adapter ''chrome'' (Inr three_bookmarks))
   \<and> fst (Read (fixed_adapter ''chrome'' (Inr three_bookmarks)) ()) = Inr three_bookmarks
   \<and> length three_bookmarks = 3
   \<and> GetInput world_six ''firefox''
       = Some (fixed_adapter ''firefox'' (Inl ''database is locked''))
   \<and> fst (Read (fixed_adapter ''firefox'' (Inl ''database is locked'')) ())
       = Inl ''database is locked''
   \<and> fst (readAllInputs test_config world_six NewCollection) = None
   \<and> Bookmarks (snd (snd (readAllInputs test_config world_six NewCollection)))
       = three_bookmarks
   \<and> map si_Name (Sources (snd (snd (readAllInputs test_config world_six NewCollection))))
       = [''chrome'']
   \<and> \<not> isl (runSync_collect ascii_golib all_flags test_config world_six)"
proof -
  let ?c = "fixed_adapter ''chrome'' (Inr three_bookmarks)"
  let ?f = "fixed_adapter ''firefox'' (Inl ''database is locked'')"
  have pref: "''chrome'' \<in> set inputPreference" "''firefox'' \<in> set inputPreference"
    "''chrome'' \<noteq> ''firefox''"
    by (simp_all add: inputPreference_def)
  have keys: "map fst (inputs world_six)
                = [''chromium'', ''chrome'', ''edge'', ''brave'', ''firefox'', ''safari'']"
    by (simp add: world_six_def world_defs)
  have four: "records_of (read_result test_config world_six ''edge'') = []"
    "records_of (read_result test_config world_six ''safari'') = []"
    "records_of (read_result test_config world_six ''chromium'') = []"
    "records_of (read_result test_config world_six ''brave'') = []"
    by (simp_all add: records_of_def read_result_def GetInput_def GetInputConfig_def
        world_six_def world_defs)
  have others: "records_of (read_result test_config world_six n) = []"
    if "n \<in> set inputPreference" "n \<noteq> ''chrome''" "n \<noteq> ''firefox''" for n
    using that four by (auto simp add: inputPreference_def)
  have c: "GetInput world_six ''chrome'' = Some ?c"
    "Enabled (GetInputConfig test_config ''chrome'')" "Available ?c"
    "Configure ?c \<lparr>in_Enabled = True, in_Profile = [],
       in_CustomPath = CustomPath (GetInputConfig test_config ''chrome'')\<rparr> = (None, ?c)"
    "Read ?c () = (Inr three_bookmarks, ?c)" "length three_bookmarks = 3"
    by (simp_all add: GetInput_def GetInputConfig_def world_six_def world_defs
        three_bookmarks_def)
  have f: "GetInput world_six ''firefox'' = Some ?f"
    "Enabled (GetInputConfig test_config ''firefox'')" "Available ?f"
    "Configure ?f \<lparr>in_Enabled = True, in_Profile = [],
       in_CustomPath = CustomPath (GetInputConfig test_config ''firefox'')\<rparr> = (None, ?f)"
    "Read ?f () = (Inl ''database is locked'', ?f)"
    by (simp_all add: GetInput_def GetInputConfig_def world_six_def world_defs)
  have flags: "all_flags\<lparr>flag_all := True\<rparr> = all_flags"
    by (simp add: all_flags_def)
  from failed_source_skipped [OF pref others c f, of ascii_golib all_flags]
    pref(1,2) keys four c(1,5,6) f(1,5)
  show ?thesis
    by (simp add: flags)
qed

subsection \<open>Descriptor counts\<close>

lemma counts_agree_Add: "counts_agree c \<Longrightarrow> counts_agree (Add c bs src)"
  by (simp add: counts_agree_def Add_def)

lemma counts_agree_NewCollection: "counts_agree NewCollection"
  by (simp add: counts_agree_def NewCollection_def)

lemma counts_agree_read_source:
  "counts_agree c \<Longrightarrow> counts_agree (snd (read_source cfg name (w, c)))"
  by (simp add: read_source_collection counts_agree_def records_of_def descriptors_of_def
      split: option.splits prod.splits sum.splits list.splits)

lemma counts_agree_fold:
  "counts_agree c \<Longrightarrow> counts_agree (snd (fold (read_source cfg) names (w, c)))"
proof (induction names arbitrary: w c)
  case Nil
  then show ?case by simp
next
  case (Cons n names)
  obtain w1 c1 where step: "read_source cfg n (w, c) = (w1, c1)"
    by (cases "read_source cfg n (w, c)")
  with counts_agree_read_source [OF Cons.prems, of cfg n w] have "counts_agree c1" by simp
  from Cons.IH [OF this] show ?case by (simp add: step)
qed

lemma counts_agree_readAllInputs:
  "counts_agree c \<Longrightarrow> counts_agree (snd (snd (readAllInputs cfg w c)))"
  using counts_agree_fold [of c cfg inputPreference w]
  by (auto simp add: readAllInputs_def split: prod.splits)

lemma counts_agree_readPreferredInput:
  "counts_agree c \<Longrightarrow> readPreferredInput cfg bf pf w c = Inr (w', c') \<Longrightarrow> counts_agree c'"
  by (auto simp add: readPreferredInput_def Let_def counts_agree_Add
      split: if_splits option.splits prod.splits sum.splits)

lemma counts_agree_getBookmarks:
  "cache s = None \<Longrightarrow> counts_agree (fst (fst (getBookmarks w s uri)))"
  using counts_agree_fold [OF counts_agree_NewCollection, of "config s" "ListInputs w" w]
  by (auto simp add: getBookmarks_def readAllSources_def split: prod.splits)

lemma filteredCollection_props:
  "Sources (filteredCollection G cfg opts c) = Sources c
   \<and> subseq (Bookmarks (filteredCollection G cfg opts c)) (Bookmarks c)"
  using subseq_Deduplicate [of "fr_Bookmarks (Filter G (Bookmarks c) opts)"]
    Filter_kept_of_input [of G "Bookmarks c" opts]
  by (auto simp add: filteredCollection_def Let_def intro: subseq_order.trans)

text \<open>
  Claim C2, as the code has it. The empty collection has descriptor counts that add up to
  its number of bookmarks, \<open>Add\<close> keeps it so, and so do the read paths built from
  \<open>Add\<close>: \<open>readAllInputs\<close>, \<open>readPreferredInput\<close> and the server's uncached
  \<open>getBookmarks\<close>. The post-filter update of \<open>runSync\<close> replaces the bookmarks alone: the
  collection it renders has the descriptors of the collection that was read, unchanged,
  its bookmarks are a subsequence of those read, and its counts add up to the number of
  bookmarks read.
\<close>

theorem collection_counts:
  "counts_agree NewCollection
   \<and> (counts_agree c \<longrightarrow> counts_agree (Add c bs src))
   \<and> (counts_agree c \<longrightarrow> counts_agree (snd (snd (readAllInputs cfg w c))))
   \<and> (\<forall>w' c'. counts_agree c \<longrightarrow> readPreferredInput cfg bf pf w c = Inr (w', c')
          \<longrightarrow> counts_agree c')
   \<and> (cache s = None \<longrightarrow> counts_agree (fst (fst (getBookmarks w s uri))))
   \<and> (\<forall>w' c' fc. runSync_collect G flags cfg w = Inr (w', c', fc) \<longrightarrow>
          counts_agree c' \<and> Sources fc = Sources c' \<and> subseq (Bookmarks fc) (Bookmarks c')
          \<and> sum_list (map si_Count (Sources fc)) = int (length (Bookmarks c')))"
proof -
  have run: "counts_agree c' \<and> Sources fc = Sources c' \<and> subseq (Bookmarks fc) (Bookmarks c')
          \<and> sum_list (map si_Count (Sources fc)) = int (length (Bookmarks c'))"
    if r: "runSync_collect G flags cfg w = Inr (w', c', fc)" for w' c' fc
  proof -
    have fc: "fc = filteredCollection G cfg (buildFilterOptions flags cfg) c'"
      using r
      by (auto simp add: runSync_collect_def Let_def
          split: if_splits sum.splits prod.splits option.splits)
    have "counts_agree c'"
    proof (cases "flag_all flags")
      case True
      then have "c' = snd (snd (readAllInputs cfg w NewCollection))"
        using r
        by (auto simp add: runSync_collect_def Let_def
            split: if_splits sum.splits prod.splits option.splits)
      then show ?thesis
        using counts_agree_readAllInputs [OF counts_agree_NewCollection] by simp
    next
      case False
      then have "readPreferredInput cfg (flag_browser flags) (flag_profile flags) w
                   NewCollection = Inr (w', c')"
        using r
        by (auto simp add: runSync_collect_def Let_def
            split: if_splits sum.splits prod.splits option.splits)
      then show ?thesis
        using counts_agree_readPreferredInput [OF counts_agree_NewCollection] by blast
    qed
    then show ?thesis
      using filteredCollection_props [of G cfg "buildFilterOptions flags cfg" c']
      by (simp add: fc counts_agree_def)
  qed
  show ?thesis
    using run counts_agree_NewCollection counts_agree_Add counts_agree_readAllInputs
      counts_agree_readPreferredInput counts_agree_getBookmarks
    by blast
qed

theorem collection_counts_witness:
  "counts_agree NewCollection
   \<and> counts_agree (Add NewCollection three_bookmarks
        \<lparr>si_Name = ''chrome'', si_Profile = ''Default'', si_Path = ''/chrome'', si_Count = 0\<rparr>)
   \<and> snd (snd (readAllInputs test_config world_failing NewCollection)) = read_collection
   \<and> counts_agree read_collection
   \<and> runSync_collect ascii_golib all_flags test_config world_failing
       = Inr (world_failing\<lparr>reads := [''chrome'', ''firefox'']\<rparr>, read_collection,
              rendered_collection)
   \<and> Sources rendered_collection = Sources read_collection
   \<and> subseq (Bookmarks rendered_collection) (Bookmarks read_collection)
   \<and> sum_list (map si_Count (Sources rendered_collection))
       = int (length (Bookmarks read_collection))"
  using collection_counts [of NewCollection three_bookmarks
      "\<lparr>si_Name = ''chrome'', si_Profile = ''Default'', si_Path = ''/chrome'', si_Count = 0\<rparr>"
      test_config world_failing "[]" "[]" "NewServer test_config" "[]" ascii_golib all_flags]
    runSync_collect_world_failing readAllInputs_world_failing
  by auto

text \<open>
  The claim as stated fails: in \<open>world_failing\<close>, with the scheme \<open>javascript\<close> excluded,
  \<open>runSync\<close> reads three bookmarks and renders a collection of two bookmarks whose single
  descriptor still counts three.
\<close>

theorem post_filter_counts_counterexample:
  "runSync_collect ascii_golib all_flags test_config world_failing
     = Inr (world_failing\<lparr>reads := [''chrome'', ''firefox'']\<rparr>, read_collection,
            rendered_collection)
   \<and> sum_list (map si_Count (Sources rendered_collection)) = 3
   \<and> int (length (Bookmarks rendered_collection)) = 2
   \<and> \<not> counts_agree rendered_collection"
  by (simp add: runSync_collect_world_failing)
     (simp_all add: rendered_collection_def counts_agree_def)

section \<open>Properties of the protocol server\<close>

lemma getBookmarks_cached:
  "cache s = Some c \<Longrightarrow> getBookmarks w s uri = ((c, None), w, s)"
  by (simp add: getBookmarks_def)

lemma getBookmarks_uncached:
  "cache s = None \<Longrightarrow>
   getBookmarks w s uri =
     ((snd (readAllSources (config s) w), None), fst (readAllSources (config s) w),
      s\<lparr>cache := Some (snd (readAllSources (config s) w))\<rparr>)"
  by (simp add: getBookmarks_def split: prod.splits)

lemma getBookmarks_populates:
  "\<exists>c w'. getBookmarks w s uri = ((c, None), w', s\<lparr>cache := Some c\<rparr>)"
  by (cases "cache s") (auto simp add: getBookmarks_def split: prod.splits)

subsection \<open>Evaluation on the concrete worlds\<close>

lemma getBookmarks_world_two:
  "getBookmarks world_two (NewServer test_config) uri =
     ((two_collection, None), once_read_world, cached_server)"
  using readAllSources_world_two [of "[]"]
  by (simp add: getBookmarks_def NewServer_def world_two_reads once_read_world_def
      cached_server_def)

lemma render_resource_world_two:
  "uri \<noteq> ''favs://markdown'' \<Longrightarrow>
   render_resource now (world_two\<lparr>reads := r\<rparr>) (request m p) uri two_collection = two_page uri"
  by (simp add: render_resource_def GetOutput_def world_defs url_renderer_def
      two_collection_def bm_def two_page_def request_def)

lemma read_world_two:
  "uri \<noteq> ''favs://markdown'' \<Longrightarrow>
   handleRequest plain_json now world_two (NewServer test_config)
       (request ''resources/read'' uri)
     = (two_page uri, once_read_world, cached_server)"
  using render_resource_world_two [of uri now "[''chrome'', ''firefox'']" "''resources/read''" uri]
  by (simp add: handleRequest_def handleResourcesRead_def getBookmarks_world_two
      once_read_world_def)
     (simp add: request_def plain_json_def getBookmarks_world_two once_read_world_def)

lemma read_cached_world_two:
  "uri \<noteq> ''favs://markdown'' \<Longrightarrow>
   handleRequest plain_json now (world_two\<lparr>reads := r\<rparr>) cached_server
       (request ''resources/read'' uri)
     = (two_page uri, world_two\<lparr>reads := r\<rparr>, cached_server)"
  using render_resource_world_two [of uri now r "''resources/read''" uri]
  by (simp add: handleRequest_def handleResourcesRead_def)
     (simp add: request_def plain_json_def getBookmarks_cached cached_server_def)

lemma resync_world_two:
  "handleRequest plain_json now once_read_world cached_server resync_request
     = (resultResponse ''1'' (ContentResult ''Synced 2 bookmarks from 2 sources''),
        resynced_world, cached_server)"
  using readAllSources_world_two [of "[''chrome'', ''firefox'']"]
  by (simp add: handleRequest_def handleToolsCall_def toolSyncBookmarks_def resync_request_def
      request_def plain_json_def getBookmarks_uncached cached_server_def once_read_world_def
      resynced_world_def)
     (simp add: two_collection_def Count_def Itoa_def digits.simps)

subsection \<open>Search with the empty query\<close>

lemma containsIgnoreCase_empty: "containsIgnoreCase s [] = True"
  by (simp add: containsIgnoreCase_def)

lemma search_matches_empty: "search_matches [] bs = bs"
  by (simp add: search_matches_def containsIgnoreCase_empty)

text \<open>
  Claim C10. For every cached collection, a \<open>tools/call\<close> request for
  \<open>search_bookmarks\<close> whose query decodes to the empty string matches every bookmark of
  the collection: the response reports as many matches as the collection has bookmarks
  and lists them all, and neither the world nor the server changes.
\<close>

theorem search_empty_query_matches_all:
  assumes "Method req = ''tools/call''"
    and "Unmarshal_call J (Params req) = Some (''search_bookmarks'', args)"
    and "Unmarshal_query J args = Some []"
    and "cache s = Some c"
  shows "search_matches [] (Bookmarks c) = Bookmarks c
       \<and> handleRequest J now w s req =
           (resultResponse (ID req)
              (ContentResult
                 (''Found '' @ Itoa (int (length (Bookmarks c))) @ '' matches:'' @ [CHR 0x0A]
                    @ MarshalIndent J (map (\<lambda>b. (Title b, URL b)) (Bookmarks c)))),
            w, s)"
  using assms
  by (simp add: handleRequest_def handleToolsCall_def toolSearchBookmarks_def
      getBookmarks_cached search_matches_empty Let_def)

theorem search_empty_query_matches_all_witness:
  "Method (request ''tools/call'' ''search_bookmarks:'') = ''tools/call''
   \<and> Unmarshal_call plain_json (Params (request ''tools/call'' ''search_bookmarks:''))
       = Some (''search_bookmarks'', [])
   \<and> Unmarshal_query plain_json [] = Some []
   \<and> cache cached_server = Some two_collection
   \<and> length (Bookmarks two_collection) = 2
   \<and> handleRequest plain_json 0 once_read_world cached_server
         (request ''tools/call'' ''search_bookmarks:'')
       = (resultResponse ''1''
            (ContentResult
               (''Found 2 matches:'' @ [CHR 0x0A] @ ''https://github.com http://docs'')),
          once_read_world, cached_server)"
proof -
  have h: "Method (request ''tools/call'' ''search_bookmarks:'') = ''tools/call''"
    "Unmarshal_call plain_json (Params (request ''tools/call'' ''search_bookmarks:''))
       = Some (''search_bookmarks'', [])"
    "Unmarshal_query plain_json [] = Some []"
    "cache cached_server = Some two_collection"
    by (simp_all add: request_def plain_json_def cached_server_def)
  have v: "length (Bookmarks two_collection) = 2"
    "Itoa (int (length (Bookmarks two_collection))) = ''2''"
    "MarshalIndent plain_json (map (\<lambda>b. (Title b, URL b)) (Bookmarks two_collection))
       = ''https://github.com http://docs''"
    "ID (request ''tools/call'' ''search_bookmarks:'') = ''1''"
    by (simp_all add: two_collection_def Itoa_def digits.simps plain_json_def bm_def request_def)
  from search_empty_query_matches_all [OF h, of 0 once_read_world] h v
  show ?thesis by simp
qed

subsection \<open>The cache between resyncs\<close>

lemma handleRequest_resource_read:
  assumes "is_resource_read J uri req"
  shows "\<exists>c w'. handleRequest J now w s req =
            (render_resource now w' req uri c, w', s\<lparr>cache := Some c\<rparr>)"
proof -
  obtain c w' where g: "getBookmarks w s uri = ((c, None), w', s\<lparr>cache := Some c\<rparr>)"
    using getBookmarks_populates by blast
  have "handleRequest J now w s req = (render_resource now w' req uri c, w', s\<lparr>cache := Some c\<rparr>)"
    using assms by (simp add: is_resource_read_def handleRequest_def handleResourcesRead_def g)
  then show ?thesis by blast
qed

lemma handleRequest_resource_read_cached:
  assumes "is_resource_read J uri req" and "cache s = Some c"
  shows "handleRequest J now w s req = (render_resource now w req uri c, w, s)"
  using assms
  by (simp add: is_resource_read_def handleRequest_def handleResourcesRead_def
      getBookmarks_cached)

text \<open>With the cache populated, only a resync changes the world or the server.\<close>

lemma handleRequest_cached:
  assumes "cache s = Some c" and "\<not> is_resync J req"
  shows "snd (handleRequest J now w s req) = (w, s)"
proof -
  have tools: "snd (handleToolsCall J w s req) = (w, s)" if "Method req = ''tools/call''"
  proof (cases "Unmarshal_call J (Params req)")
    case None
    then show ?thesis by (simp add: handleToolsCall_def)
  next
    case (Some p)
    obtain name args where p: "p = (name, args)" by (cases p)
    with Some assms(2) that have "name \<noteq> ''sync_bookmarks''"
      by (simp add: is_resync_def)
    then show ?thesis
      using Some p assms(1)
      by (simp add: handleToolsCall_def toolSearchBookmarks_def getBookmarks_cached Let_def
          split: option.splits)
  qed
  have "snd (handleResourcesRead J now w s req) = (w, s)"
    using assms(1)
    by (simp add: handleResourcesRead_def getBookmarks_cached split: option.splits)
  with tools show ?thesis
    by (simp add: handleRequest_def)
qed

lemma handleRequests_cached:
  "cache s = Some c \<Longrightarrow> list_all (\<lambda>tr. \<not> is_resync J (snd tr)) reqs \<Longrightarrow>
   snd (handleRequests J reqs w s) = (w, s)"
proof (induction reqs)
  case Nil
  then show ?case by simp
next
  case (Cons tr reqs)
  obtain now req where tr: "tr = (now, req)" by (cases tr)
  from Cons.prems tr have "snd (handleRequest J now w s req) = (w, s)"
    by (intro handleRequest_cached) simp_all
  then obtain resp where "handleRequest J now w s req = (resp, w, s)"
    by (cases "handleRequest J now w s req") simp
  with Cons tr show ?case
    by (auto split: prod.splits)
qed

text \<open>A resync runs the all-sources read path itself and stores what it read.\<close>

lemma handleRequest_resync:
  assumes "is_resync J req"
  shows "handleRequest J now w s req =
           (resultResponse (ID req)
              (ContentResult
                 (''Synced '' @ Itoa (Count (snd (readAllSources (config s) w)))
                    @ '' bookmarks from ''
                    @ Itoa (int (length (Sources (snd (readAllSources (config s) w)))))
                    @ '' sources'')),
            fst (readAllSources (config s) w),
            s\<lparr>cache := Some (snd (readAllSources (config s) w))\<rparr>)"
proof -
  from assms obtain args
    where "Unmarshal_call J (Params req) = Some (''sync_bookmarks'', args)"
      and "Method req = ''tools/call''"
    by (auto simp add: is_resync_def)
  then show ?thesis
    by (simp add: handleRequest_def handleToolsCall_def toolSyncBookmarks_def
        getBookmarks_uncached)
qed

text \<open>
  Claim C4, as the code has it. Take a read of the all-bookmarks resource, then any
  requests none of which is a resync, then a second read of the all-bookmarks resource,
  then a resync, then a further read. After the first read the cache holds a collection;
  the second read renders that same collection and leaves the world, the log of reader
  calls in it, and the server as they were after the first read. The resync itself runs
  the all-sources read path on the world as it then is and stores the collection read in
  the cache. The read after the resync renders that stored collection and again leaves
  the world, the log of reader calls and the server as they were: it does not run the
  read path.
\<close>

theorem cache_until_resync:
  assumes r1: "is_resource_read J ''favs://all'' req1"
    and r2: "is_resource_read J ''favs://all'' req2"
    and nosync: "list_all (\<lambda>tr. \<not> is_resync J (snd tr)) reqs"
    and sync: "is_resync J req3"
    and r4: "is_resource_read J ''favs://all'' req4"
    and h1: "handleRequest J t1 w0 s0 req1 = (resp1, w1, s1)"
    and hs: "handleRequests J reqs w1 s1 = (resps, w2, s2)"
    and h2: "handleRequest J t2 w2 s2 req2 = (resp2, w3, s3)"
    and h3: "handleRequest J t3 w3 s3 req3 = (resp3, w4, s4)"
    and h4: "handleRequest J t4 w4 s4 req4 = (resp4, w5, s5)"
  shows "(\<exists>c. cache s1 = Some c
            \<and> resp1 = render_resource t1 w1 req1 ''favs://all'' c
            \<and> resp2 = render_resource t2 w1 req2 ''favs://all'' c)
       \<and> w3 = w1 \<and> reads w3 = reads w1 \<and> s3 = s1
       \<and> w4 = fst (readAllSources (config s3) w3)
       \<and> cache s4 = Some (snd (readAllSources (config s3) w3))
       \<and> resp4 = render_resource t4 w4 req4 ''favs://all'' (snd (readAllSources (config s3) w3))
       \<and> w5 = w4 \<and> reads w5 = reads w4 \<and> s5 = s4"
proof -
  from handleRequest_resource_read [OF r1, of t1 w0 s0] h1
  obtain c where c: "resp1 = render_resource t1 w1 req1 ''favs://all'' c"
    and s1: "s1 = s0\<lparr>cache := Some c\<rparr>"
    by auto
  then have cache1: "cache s1 = Some c" by simp
  from handleRequests_cached [OF cache1 nosync, of w1] hs have w2: "w2 = w1" "s2 = s1"
    by simp_all
  from handleRequest_resource_read_cached [OF r2 cache1, of t2 w1] h2 w2
  have second: "resp2 = render_resource t2 w1 req2 ''favs://all'' c" "w3 = w1" "s3 = s1"
    by auto
  from handleRequest_resync [OF sync, of t3 w3 s3] h3
  have third: "w4 = fst (readAllSources (config s3) w3)"
    "s4 = s3\<lparr>cache := Some (snd (readAllSources (config s3) w3))\<rparr>"
    by simp_all
  then have cache4: "cache s4 = Some (snd (readAllSources (config s3) w3))" by simp
  from handleRequest_resource_read_cached [OF r4 cache4, of t4 w4] h4
  have fourth:
    "resp4 = render_resource t4 w4 req4 ''favs://all'' (snd (readAllSources (config s3) w3))"
    "w5 = w4" "s5 = s4"
    by auto
  from cache1 c second third(1) cache4 fourth show ?thesis by simp
qed

theorem cache_until_resync_witness:
  "is_resource_read plain_json ''favs://all'' read_all_request
   \<and> \<not> is_resync plain_json (request ''tools/list'' [])
   \<and> is_resync plain_json resync_request
   \<and> handleRequest plain_json 0 world_two (NewServer test_config) read_all_request
       = (two_page ''favs://all'', once_read_world, cached_server)
   \<and> handleRequests plain_json [(1, request ''tools/list'' [])] once_read_world cached_server
       = ([handleToolsList (request ''tools/list'' [])], once_read_world, cached_server)
   \<and> handleRequest plain_json 2 once_read_world cached_server read_all_request
       = (two_page ''favs://all'', once_read_world, cached_server)
   \<and> handleRequest plain_json 3 once_read_world cached_server resync_request
       = (resultResponse ''1'' (ContentResult ''Synced 2 bookmarks from 2 sources''),
          resynced_world, cached_server)
   \<and> handleRequest plain_json 4 resynced_world cached_server read_all_request
       = (two_page ''favs://all'', resynced_world, cached_server)
   \<and> resynced_world = fst (readAllSources (config cached_server) once_read_world)
   \<and> cache cached_server = Some (snd (readAllSources (config cached_server) once_read_world))
   \<and> reads once_read_world = [''chrome'', ''firefox'']
   \<and> reads resynced_world = [''chrome'', ''firefox'', ''chrome'', ''firefox'']"
proof -
  have kinds: "is_resource_read plain_json ''favs://all'' read_all_request"
    "list_all (\<lambda>tr. \<not> is_resync plain_json (snd tr)) [(1, request ''tools/list'' [])]"
    "is_resync plain_json resync_request"
    by (simp_all add: is_resource_read_def is_resync_def read_all_request_def
        resync_request_def request_def plain_json_def)
  have h1: "handleRequest plain_json 0 world_two (NewServer test_config) read_all_request
              = (two_page ''favs://all'', once_read_world, cached_server)"
    unfolding read_all_request_def by (rule read_world_two) simp
  have hs: "handleRequests plain_json [(1, request ''tools/list'' [])] once_read_world
              cached_server
              = ([handleToolsList (request ''tools/list'' [])], once_read_world, cached_server)"
    by (simp add: handleRequest_def request_def)
  have h2: "handleRequest plain_json 2 once_read_world cached_server read_all_request
              = (two_page ''favs://all'', once_read_world, cached_server)"
    unfolding read_all_request_def once_read_world_def by (rule read_cached_world_two) simp
  have h3: "handleRequest plain_json 3 once_read_world cached_server resync_request
              = (resultResponse ''1'' (ContentResult ''Synced 2 bookmarks from 2 sources''),
                 resynced_world, cached_server)"
    by (rule resync_world_two)
  have h4: "handleRequest plain_json 4 resynced_world cached_server read_all_request
              = (two_page ''favs://all'', resynced_world, cached_server)"
    unfolding read_all_request_def resynced_world_def by (rule read_cached_world_two) simp
  have logs: "reads once_read_world = [''chrome'', ''firefox'']"
    "reads resynced_world = [''chrome'', ''firefox'', ''chrome'', ''firefox'']"
    by (simp_all add: once_read_world_def resynced_world_def)
  from cache_until_resync [OF kinds(1) kinds(1) kinds(2) kinds(3) kinds(1) h1 hs h2 h3 h4]
    kinds h1 hs h2 h3 h4 logs
  show ?thesis by simp
qed

text \<open>
  The claim as stated fails: in \<open>world_two\<close>, after a read and a resync, the next read
  leaves the log of reader calls as the resync left it, where a run of the all-sources
  read path would have added two calls.
\<close>

theorem read_after_resync_counterexample:
  "snd (handleRequests plain_json [(0, read_all_request), (1, resync_request)] world_two
          (NewServer test_config)) = (resynced_world, cached_server)
   \<and> snd (handleRequest plain_json 2 resynced_world cached_server read_all_request)
       = (resynced_world, cached_server)
   \<and> reads resynced_world = [''chrome'', ''firefox'', ''chrome'', ''firefox'']
   \<and> reads (fst (readAllSources test_config resynced_world))
       = [''chrome'', ''firefox'', ''chrome'', ''firefox'', ''chrome'', ''firefox'']"
proof -
  have h1: "handleRequest plain_json 0 world_two (NewServer test_config) read_all_request
              = (two_page ''favs://all'', once_read_world, cached_server)"
    unfolding read_all_request_def by (rule read_world_two) simp
  have h4: "handleRequest plain_json 2 resynced_world cached_server read_all_request
              = (two_page ''favs://all'', resynced_world, cached_server)"
    unfolding read_all_request_def resynced_world_def by (rule read_cached_world_two) simp
  have "reads (fst (readAllSources test_config resynced_world))
          = [''chrome'', ''firefox'', ''chrome'', ''firefox'', ''chrome'', ''firefox'']"
    unfolding resynced_world_def by (simp add: readAllSources_world_two)
  with h1 h4 resync_world_two [of 1] show ?thesis
    by (simp add: resynced_world_def)
qed

subsection \<open>The source suffix of a resource identifier\<close>

lemma getBookmarks_ignores_uri: "getBookmarks w s uri = getBookmarks w s uri'"
  by (simp add: getBookmarks_def)

text \<open>
  Claim C1, on the code. In \<open>world_two\<close>, where Chrome and Firefox hold one bookmark each,
  a read of the resource \<open>favs://chrome\<close> is answered with the bookmarks of both sources:
  the collection handed to the renderer is the whole cached collection, which is not the
  list of the bookmarks whose source is Chrome.
\<close>

theorem resource_read_ignores_source_suffix:
  "handleRequest plain_json 0 world_two (NewServer test_config)
       (request ''resources/read'' ''favs://chrome'')
     = (resultResponse ''1''
          (ContentsResult ''favs://chrome'' ''application/json''
             ''https://github.com http://docs''),
        once_read_world, cached_server)
   \<and> fst (fst (getBookmarks world_two (NewServer test_config) ''favs://chrome''))
       = two_collection
   \<and> filter (\<lambda>b. Source b = ''chrome'') (Bookmarks two_collection)
       = [bm ''GitHub'' ''https://github.com'' ''chrome'']
   \<and> Bookmarks two_collection
       = [bm ''GitHub'' ''https://github.com'' ''chrome'', bm ''Docs'' ''http://docs'' ''firefox'']"
  using read_world_two [of "''favs://chrome''" 0]
  by (simp add: getBookmarks_world_two two_page_def)
     (simp add: two_collection_def bm_def)

end
